theory Spec2Isabelle
  imports Main "HOL-Library.Word" "HOL-Library.Sublist"
begin

unbundle bit_operations_syntax

section \<open>JavaScript values\<close>

text \<open>
  The records, content blocks and tool results handled by the adapter come out of
  \<^verbatim>\<open>JSON.parse\<close> or the MCP client, so they are JSON values. Strings are lists of
  code units. Numbers are integers here: the adapter only ever tests a number for
  truthiness (zero or not) and for its type. An object is the list of its own properties in
  insertion order, with distinct keys.
\<close>

datatype json =
    JNull
  | JBool bool
  | JNum int
  | JStr string
  | JArr "json list"
  | JObj "(string \<times> json) list"

text \<open>
  A property read \<^verbatim>\<open>v.k\<close>. The result is a \<open>json option\<close>, where \<open>None\<close> is
  JavaScript's \<^verbatim>\<open>undefined\<close>. Only objects carry the properties the adapter asks for;
  on arrays and primitives each of those names is undefined.
\<close>

fun js_get :: "string \<Rightarrow> json \<Rightarrow> json option" where
  "js_get k (JObj kvs) = map_of kvs k"
| "js_get k JNull = None"
| "js_get k (JBool b) = None"
| "js_get k (JNum n) = None"
| "js_get k (JStr s) = None"
| "js_get k (JArr xs) = None"

text \<open>\<^verbatim>\<open>typeof v\<close>; note that \<^verbatim>\<open>typeof null\<close> and \<^verbatim>\<open>typeof []\<close> are \<^verbatim>\<open>'object'\<close>.\<close>

fun typeof :: "json option \<Rightarrow> string" where
  "typeof None = ''undefined''"
| "typeof (Some JNull) = ''object''"
| "typeof (Some (JBool b)) = ''boolean''"
| "typeof (Some (JNum n)) = ''number''"
| "typeof (Some (JStr s)) = ''string''"
| "typeof (Some (JArr xs)) = ''object''"
| "typeof (Some (JObj kvs)) = ''object''"

text \<open>Truthiness: \<^verbatim>\<open>undefined\<close>, \<^verbatim>\<open>null\<close>, \<^verbatim>\<open>false\<close>, \<^verbatim>\<open>0\<close> and \<^verbatim>\<open>''\<close> are falsy.\<close>

fun truthy :: "json option \<Rightarrow> bool" where
  "truthy None = False"
| "truthy (Some JNull) = False"
| "truthy (Some (JBool b)) = b"
| "truthy (Some (JNum n)) = (n \<noteq> 0)"
| "truthy (Some (JStr s)) = (s \<noteq> [])"
| "truthy (Some (JArr xs)) = True"
| "truthy (Some (JObj kvs)) = True"

fun nullish :: "json option \<Rightarrow> bool" where
  "nullish None = True"
| "nullish (Some JNull) = True"
| "nullish (Some v) = False"

text \<open>\<^verbatim>\<open>a ?? b\<close>, \<^verbatim>\<open>a || b\<close> and \<^verbatim>\<open>Array.isArray(v)\<close>.\<close>

definition coalesce :: "json option \<Rightarrow> json option \<Rightarrow> json option" where
  "coalesce a b = (if nullish a then b else a)"

definition js_or :: "json option \<Rightarrow> json option \<Rightarrow> json option" where
  "js_or a b = (if truthy a then a else b)"

fun isArray :: "json option \<Rightarrow> bool" where
  "isArray (Some (JArr xs)) = True"
| "isArray v = False"

text \<open>
  \<^verbatim>\<open>JSON.parse\<close> and \<^verbatim>\<open>JSON.stringify\<close> are built-ins of the language, not code of
  the repository; the functions that call them take them as parameters. \<open>None\<close> is the
  \<^verbatim>\<open>SyntaxError\<close> that \<^verbatim>\<open>JSON.parse\<close> throws.
\<close>

type_synonym json_parse = "string \<Rightarrow> json option"
type_synonym json_stringify = "json \<Rightarrow> string"

section \<open>Payload unwrapper\<close>

subsection \<open>\<^verbatim>\<open>parsePossiblyNestedJson\<close> (TypeScript) and \<^verbatim>\<open>_parseNestedJson\<close> (CommonJS)\<close>

text \<open>
  \<^verbatim>\<open>let val = text; for (let i = 0; i < 2; i++) { if (typeof val === 'string') { try { val =
  JSON.parse(val) } catch { break } } } return val\<close>. The first argument of the loop is the
  number of rounds left; a round on a value that is not a string changes nothing, a failed
  parse leaves the loop with the value reached so far.
\<close>

fun parse_rounds :: "json_parse \<Rightarrow> nat \<Rightarrow> json \<Rightarrow> json" where
  "parse_rounds P 0 v = v"
| "parse_rounds P (Suc n) (JStr s) =
     (case P s of None \<Rightarrow> JStr s | Some v' \<Rightarrow> parse_rounds P n v')"
| "parse_rounds P (Suc n) v = parse_rounds P n v"

definition parsePossiblyNestedJson :: "json_parse \<Rightarrow> string \<Rightarrow> json" where
  "parsePossiblyNestedJson P text = parse_rounds P 2 (JStr text)"

definition js_parseNestedJson :: "json_parse \<Rightarrow> string \<Rightarrow> json" where
  "js_parseNestedJson P text = parse_rounds P 2 (JStr text)"

subsection \<open>\<^verbatim>\<open>parseItemsFromBlocks\<close> (TypeScript) and \<^verbatim>\<open>_extractArrayFromBlocks\<close> (CommonJS)\<close>

text \<open>
  \<^verbatim>\<open>(Array.isArray(obj.items) && obj.items) || (Array.isArray(obj.results) && obj.results)
  || (Array.isArray(obj.data) && obj.data) || null\<close>: an array is truthy even when empty,
  so this is the first of the three properties that holds an array.
\<close>

definition wrapper_array :: "json \<Rightarrow> json list option" where
  "wrapper_array obj =
     (case js_get ''items'' obj of Some (JArr xs) \<Rightarrow> Some xs
      | _ \<Rightarrow> (case js_get ''results'' obj of Some (JArr xs) \<Rightarrow> Some xs
        | _ \<Rightarrow> (case js_get ''data'' obj of Some (JArr xs) \<Rightarrow> Some xs
          | _ \<Rightarrow> None)))"

text \<open>What one parsed block text adds to \<^verbatim>\<open>out\<close>.\<close>

definition parsed_records :: "json \<Rightarrow> json list" where
  "parsed_records parsed =
     (case parsed of
        JArr xs \<Rightarrow> xs
      | JObj kvs \<Rightarrow> (case wrapper_array (JObj kvs) of Some arr \<Rightarrow> arr | None \<Rightarrow> [])
      | _ \<Rightarrow> [])"

text \<open>
  The loop over the blocks, with the accumulator \<^verbatim>\<open>out\<close>. A block is skipped unless
  \<^verbatim>\<open>b.type === 'text'\<close> and \<^verbatim>\<open>typeof b.text === 'string'\<close>.
\<close>

fun parseItemsFromBlocks_loop :: "json_parse \<Rightarrow> json list \<Rightarrow> json list \<Rightarrow> json list" where
  "parseItemsFromBlocks_loop P out [] = out"
| "parseItemsFromBlocks_loop P out (b # bs) =
     (if js_get ''type'' b = Some (JStr ''text'') then
        (case js_get ''text'' b of
           Some (JStr t) \<Rightarrow>
             parseItemsFromBlocks_loop P (out @ parsed_records (parsePossiblyNestedJson P t)) bs
         | _ \<Rightarrow> parseItemsFromBlocks_loop P out bs)
      else parseItemsFromBlocks_loop P out bs)"

definition parseItemsFromBlocks :: "json_parse \<Rightarrow> json list \<Rightarrow> json list" where
  "parseItemsFromBlocks P blocks = parseItemsFromBlocks_loop P [] blocks"

text \<open>
  The CommonJS loop starts with \<^verbatim>\<open>!b ||\<close>, which skips \<^verbatim>\<open>null\<close> and the other falsy
  blocks before their properties are read.
\<close>

fun js_extractArrayFromBlocks_loop :: "json_parse \<Rightarrow> json list \<Rightarrow> json list \<Rightarrow> json list" where
  "js_extractArrayFromBlocks_loop P out [] = out"
| "js_extractArrayFromBlocks_loop P out (b # bs) =
     (if truthy (Some b) then
        (if js_get ''type'' b = Some (JStr ''text'') then
           (case js_get ''text'' b of
              Some (JStr t) \<Rightarrow>
                js_extractArrayFromBlocks_loop P (out @ parsed_records (js_parseNestedJson P t)) bs
            | _ \<Rightarrow> js_extractArrayFromBlocks_loop P out bs)
         else js_extractArrayFromBlocks_loop P out bs)
      else js_extractArrayFromBlocks_loop P out bs)"

definition js_extractArrayFromBlocks :: "json_parse \<Rightarrow> json list \<Rightarrow> json list" where
  "js_extractArrayFromBlocks P blocks = js_extractArrayFromBlocks_loop P [] blocks"

section \<open>Item normalizer\<close>

text \<open>
  The canonical item. Every field but \<open>url\<close> holds whatever value the record had under
  the winning alias (\<open>None\<close> is \<^verbatim>\<open>undefined\<close>): the TypeScript casts
  (\<^verbatim>\<open>as string\<close>) check nothing at run time.
\<close>

record WebSearchPrimeItem =
  title :: "json option"
  url :: string
  summary :: "json option"
  icon :: "json option"
  siteName :: "json option"
  media :: "json option"
  publishedAt :: "json option"
  refer :: "json option"
  raw :: json

text \<open>
  \<^verbatim>\<open>if (!url || typeof url !== 'string') continue\<close>: what passes is a non-empty string.
\<close>

definition checked_url :: "json option \<Rightarrow> string option" where
  "checked_url u =
     (if \<not> truthy u then None
      else if typeof u \<noteq> ''string'' then None
      else (case u of Some (JStr s) \<Rightarrow> Some s | _ \<Rightarrow> None))"

subsection \<open>\<^verbatim>\<open>normalizeItems\<close> (TypeScript)\<close>

text \<open>
  \<^verbatim>\<open>o.link ?? o.url ?? o.href ?? (typeof o['sourceUrl'] === 'string' ? o['sourceUrl'] :
  undefined)\<close>
\<close>

definition item_url :: "json \<Rightarrow> json option" where
  "item_url obj =
     coalesce (coalesce (coalesce (js_get ''link'' obj) (js_get ''url'' obj)) (js_get ''href'' obj))
       (if typeof (js_get ''sourceUrl'' obj) = ''string'' then js_get ''sourceUrl'' obj else None)"

definition item_title :: "json \<Rightarrow> string \<Rightarrow> json option" where
  "item_title obj u =
     coalesce (coalesce (coalesce (js_get ''title'' obj) (js_get ''name'' obj))
       (js_get ''page_title'' obj)) (Some (JStr u))"

definition make_item :: "json \<Rightarrow> string \<Rightarrow> WebSearchPrimeItem" where
  "make_item obj u =
     \<lparr> title = item_title obj u,
       url = u,
       summary = coalesce (coalesce (js_get ''content'' obj) (js_get ''summary'' obj))
                   (js_get ''description'' obj),
       icon = coalesce (js_get ''icon'' obj) (js_get ''favicon'' obj),
       siteName = coalesce (coalesce (js_get ''website'' obj) (js_get ''site'' obj))
                   (js_get ''siteName'' obj),
       media = coalesce (js_get ''media'' obj) None,
       publishedAt = coalesce (coalesce (coalesce (js_get ''publish_date'' obj)
                   (js_get ''published_at'' obj)) (js_get ''date'' obj)) None,
       refer = coalesce (js_get ''refer'' obj) None,
       raw = obj \<rparr>"

text \<open>
  One pass of the loop body up to the test of \<^verbatim>\<open>seen\<close>: \<open>None\<close> when the record is
  skipped (\<^verbatim>\<open>if (!r || typeof r !== 'object') continue\<close>, then the test of the URL),
  otherwise the URL and the item that would be pushed.
\<close>

definition normalize_record :: "json \<Rightarrow> (string \<times> WebSearchPrimeItem) option" where
  "normalize_record r =
     (if \<not> truthy (Some r) then None
      else if typeof (Some r) \<noteq> ''object'' then None
      else (case checked_url (item_url r) of
              None \<Rightarrow> None
            | Some u \<Rightarrow> Some (u, make_item r u)))"

text \<open>The loop, with its two mutable variables \<^verbatim>\<open>seen\<close> and \<^verbatim>\<open>result\<close>.\<close>

fun normalizeItems_loop ::
  "string set \<Rightarrow> WebSearchPrimeItem list \<Rightarrow> json list \<Rightarrow> WebSearchPrimeItem list" where
  "normalizeItems_loop seen result [] = result"
| "normalizeItems_loop seen result (r # rs) =
     (case normalize_record r of
        None \<Rightarrow> normalizeItems_loop seen result rs
      | Some (u, item) \<Rightarrow>
          if u \<in> seen then normalizeItems_loop seen result rs
          else normalizeItems_loop (insert u seen) (result @ [item]) rs)"

definition normalizeItems :: "json list \<Rightarrow> WebSearchPrimeItem list" where
  "normalizeItems rs = normalizeItems_loop {} [] rs"

subsection \<open>\<^verbatim>\<open>_normalizeItems\<close> (CommonJS)\<close>

text \<open>\<^verbatim>\<open>r.link || r.url || r.href || r.sourceUrl\<close>\<close>

definition js_item_link :: "json \<Rightarrow> json option" where
  "js_item_link r =
     js_or (js_or (js_or (js_get ''link'' r) (js_get ''url'' r)) (js_get ''href'' r))
       (js_get ''sourceUrl'' r)"

definition js_item_title :: "json \<Rightarrow> string \<Rightarrow> json option" where
  "js_item_title r link = js_or (js_or (js_get ''title'' r) (js_get ''name'' r)) (Some (JStr link))"

definition js_make_item :: "json \<Rightarrow> string \<Rightarrow> WebSearchPrimeItem" where
  "js_make_item r link =
     \<lparr> title = js_item_title r link,
       url = link,
       summary = js_or (js_or (js_get ''content'' r) (js_get ''summary'' r))
                   (js_get ''description'' r),
       icon = js_or (js_get ''icon'' r) (js_get ''favicon'' r),
       siteName = js_or (js_or (js_get ''website'' r) (js_get ''site'' r)) (js_get ''siteName'' r),
       media = js_get ''media'' r,
       publishedAt = js_or (js_or (js_get ''publish_date'' r) (js_get ''published_at'' r))
                   (js_get ''date'' r),
       refer = js_get ''refer'' r,
       raw = r \<rparr>"

definition js_normalize_record :: "json \<Rightarrow> (string \<times> WebSearchPrimeItem) option" where
  "js_normalize_record r =
     (if \<not> truthy (Some r) then None
      else if typeof (Some r) \<noteq> ''object'' then None
      else (case checked_url (js_item_link r) of
              None \<Rightarrow> None
            | Some link \<Rightarrow> Some (link, js_make_item r link)))"

fun js_normalizeItems_loop ::
  "string set \<Rightarrow> WebSearchPrimeItem list \<Rightarrow> json list \<Rightarrow> WebSearchPrimeItem list" where
  "js_normalizeItems_loop seen out [] = out"
| "js_normalizeItems_loop seen out (r # rs) =
     (case js_normalize_record r of
        None \<Rightarrow> js_normalizeItems_loop seen out rs
      | Some (link, item) \<Rightarrow>
          if link \<in> seen then js_normalizeItems_loop seen out rs
          else js_normalizeItems_loop (insert link seen) (out @ [item]) rs)"

definition js_normalizeItems :: "json list \<Rightarrow> WebSearchPrimeItem list" where
  "js_normalizeItems rs = js_normalizeItems_loop {} [] rs"

subsection \<open>The normalizer as the specification words it\<close>

text \<open>
  ``First-present-wins'' over a chain of aliases: the value under the first alias that the
  record has. The TypeScript chain (\<^verbatim>\<open>??\<close>) counts a property as present unless it is
  \<^verbatim>\<open>undefined\<close> or \<^verbatim>\<open>null\<close>; the CommonJS chain (\<^verbatim>\<open>||\<close>) counts it as present
  when it is truthy.
\<close>

definition first_present :: "(json option \<Rightarrow> bool) \<Rightarrow> string list \<Rightarrow> json \<Rightarrow> json option" where
  "first_present present aliases r =
     (case filter (\<lambda>k. present (js_get k r)) aliases of
        [] \<Rightarrow> None
      | k # ks \<Rightarrow> js_get k r)"

definition not_nullish :: "json option \<Rightarrow> bool" where
  "not_nullish v = (\<not> nullish v)"

text \<open>
  A record's resolvable URL: the first present alias among \<^verbatim>\<open>link\<close>, \<^verbatim>\<open>url\<close>,
  \<^verbatim>\<open>href\<close>, \<^verbatim>\<open>sourceUrl\<close>, when that value is a non-empty text.
\<close>

definition nonempty_text :: "json option \<Rightarrow> string option" where
  "nonempty_text v = (case v of Some (JStr s) \<Rightarrow> (if s = [] then None else Some s) | _ \<Rightarrow> None)"

definition resolvable_url :: "(json option \<Rightarrow> bool) \<Rightarrow> json \<Rightarrow> string option" where
  "resolvable_url present r =
     nonempty_text (first_present present [''link'', ''url'', ''href'', ''sourceUrl''] r)"

text \<open>
  Deduplication with the first occurrence kept: an element stays, and everything after it
  with the same key goes.
\<close>

fun keep_first :: "('a \<Rightarrow> 'k) \<Rightarrow> 'a list \<Rightarrow> 'a list" where
  "keep_first f [] = []"
| "keep_first f (x # xs) = x # keep_first f (filter (\<lambda>y. f y \<noteq> f x) xs)"

text \<open>
  The normalizer in the specification's words: take the records that have a resolvable
  URL, each with that URL (\<open>candidates\<close>), keep the first record of each URL, in the
  order of the input, and build one item from each.
\<close>

definition candidates :: "(json \<Rightarrow> string option) \<Rightarrow> json list \<Rightarrow> (json \<times> string) list" where
  "candidates resolve rs = List.map_filter (\<lambda>r. map_option (Pair r) (resolve r)) rs"

definition spec_normalize ::
  "(json \<Rightarrow> string option) \<Rightarrow> (json \<Rightarrow> string \<Rightarrow> WebSearchPrimeItem) \<Rightarrow> json list
     \<Rightarrow> WebSearchPrimeItem list" where
  "spec_normalize resolve build rs =
     map (\<lambda>(r, u). build r u) (keep_first snd (candidates resolve rs))"

text \<open>
  The unwrapper in the specification's words: each block contributes the records of its
  decoded text, or nothing; the contributions are appended in the order of the blocks.
\<close>

definition block_records :: "json_parse \<Rightarrow> json \<Rightarrow> json list" where
  "block_records P b =
     (if js_get ''type'' b = Some (JStr ''text'') then
        (case js_get ''text'' b of
           Some (JStr t) \<Rightarrow> parsed_records (parse_rounds P 2 (JStr t))
         | _ \<Rightarrow> [])
      else [])"

definition text_block :: "string \<Rightarrow> json" where
  "text_block t = JObj [(''type'', JStr ''text''), (''text'', JStr t)]"

section \<open>Strings, objects and the key fingerprint\<close>

text \<open>Decimal digits of a natural number, as a template literal prints an integer.\<close>

definition digit_char :: "nat \<Rightarrow> char" where
  "digit_char d = ''0123456789'' ! d"

fun show_nat :: "nat \<Rightarrow> string" where
  "show_nat n = (if n < 10 then [digit_char n] else show_nat (n div 10) @ [digit_char (n mod 10)])"

declare show_nat.simps [simp del]

text \<open>
  \<^verbatim>\<open>s.trim()\<close> removes white space and line terminators at both ends; of the code units
  that fit a \<open>char\<close> these are tab, line feed, vertical tab, form feed, carriage return,
  space and the no-break space.
\<close>

definition js_whitespace :: "char \<Rightarrow> bool" where
  "js_whitespace c = (of_char c \<in> {9, 10, 11, 12, 13, 32, 160 :: nat})"

definition trim :: "string \<Rightarrow> string" where
  "trim s = rev (dropWhile js_whitespace (rev (dropWhile js_whitespace s)))"

text \<open>
  Object spread \<^verbatim>\<open>{ ...a, ...b }\<close> on objects as property lists: the properties of
  \<open>b\<close> are assigned one after the other; an existing key keeps its place and takes the new
  value, a new key is added at the end.
\<close>

fun obj_update :: "string \<Rightarrow> 'v \<Rightarrow> (string \<times> 'v) list \<Rightarrow> (string \<times> 'v) list" where
  "obj_update k v [] = [(k, v)]"
| "obj_update k v ((k', v') # ps) = (if k' = k then (k, v) # ps else (k', v') # obj_update k v ps)"

fun obj_assign :: "(string \<times> 'v) list \<Rightarrow> (string \<times> 'v) list \<Rightarrow> (string \<times> 'v) list" where
  "obj_assign a [] = a"
| "obj_assign a ((k, v) # b) = obj_assign (obj_update k v a) b"

text \<open>
  The parameter object of a search is written by the caller, not parsed from JSON: an
  optional property (\<^verbatim>\<open>count?: number\<close>) may be left out, or be an own property whose
  value is \<^verbatim>\<open>undefined\<close>. So the values of a parameter object are \<open>json option\<close>, with
  \<open>None\<close> for \<^verbatim>\<open>undefined\<close>; \<open>map_of\<close> tells whether the object has the property,
  and \<open>param_get\<close> is the read \<^verbatim>\<open>params.k\<close>, which is \<^verbatim>\<open>undefined\<close> in both cases.
\<close>

type_synonym params_object = "(string \<times> json option) list"

definition param_get :: "string \<Rightarrow> params_object \<Rightarrow> json option" where
  "param_get k ps = (case map_of ps k of None \<Rightarrow> None | Some v \<Rightarrow> v)"

text \<open>
  \<^verbatim>\<open>hashKey\<close> (TypeScript) and \<^verbatim>\<open>_hashKey\<close> (CommonJS) are the same function:
  \<^verbatim>\<open>h = (h << 5) - h + s.charCodeAt(i); h |= 0\<close> keeps \<open>h\<close> a 32-bit integer, so the loop
  is arithmetic on 32-bit words; \<^verbatim>\<open>Math.abs\<close> is taken of its signed value.
\<close>

fun hashKey_loop :: "32 word \<Rightarrow> string \<Rightarrow> 32 word" where
  "hashKey_loop h [] = h"
| "hashKey_loop h (c # cs) = hashKey_loop (push_bit 5 h - h + of_nat (of_char c)) cs"

definition hashKey :: "string \<Rightarrow> string" where
  "hashKey s = ''k'' @ show_nat (nat \<bar>sint (hashKey_loop 0 s)\<bar>)"

section \<open>The world outside the adapter\<close>

text \<open>
  The MCP client and its transport are external. What they do during one call is given by
  a \<open>world\<close>: the ambient credential, the two readings of the clock, which endpoint texts
  \<^verbatim>\<open>new URL\<close> accepts, and how \<^verbatim>\<open>connect\<close>, \<^verbatim>\<open>listTools\<close> and \<^verbatim>\<open>callTool\<close>
  end (\<open>Inl\<close> a rejection). \<open>callTool_settles\<close> is the time in milliseconds after which
  the promise of \<^verbatim>\<open>callTool\<close> settles, \<open>None\<close> if it never does;
  \<open>timer_first_on_tie\<close> says which callback runs first when the timer and the promise
  are due at the same millisecond. The promises of \<^verbatim>\<open>connect\<close> and \<^verbatim>\<open>listTools\<close>
  are taken to settle. Calls are run one after the other, so a promise in the cache is a
  settled one.
\<close>

datatype raw_error = RawError string

record world =
  env_BIGMODEL_API_KEY :: "string option"
  now_start :: nat
  now_end :: nat
  url_parses :: "string \<Rightarrow> bool"
  connect_result :: "raw_error option"
  listTools_result :: "raw_error + json"
  callTool_result :: "raw_error + json"
  callTool_settles :: "nat option"
  timer_first_on_tie :: bool

text \<open>What the adapter throws.\<close>

datatype error_code = MISSING_API_KEY | MCP_TOOL_ERROR | INVALID_RESPONSE | TRANSPORT_OR_CONNECT_ERROR

datatype details = NoDetails | ErrorDetails raw_error | ResponseDetails json

record BigModelMCPError =
  message :: string
  code :: error_code
  details :: details

text \<open>
  \<open>MCPError\<close> is the TypeScript module's error class, \<open>PlainError\<close> a \<^verbatim>\<open>new Error(message)\<close>
  of the CommonJS module, \<open>UrlTypeError\<close> the \<^verbatim>\<open>TypeError\<close> of \<^verbatim>\<open>new URL\<close>, \<open>Raw\<close> a
  rejection of the client passed on as it is.
\<close>

datatype thrown =
    MCPError BigModelMCPError
  | PlainError string
  | UrlTypeError
  | Raw raw_error

text \<open>
  The calls made to the outside, in order, and the module state: the cache of client
  promises (a settled promise is its outcome) and the trace of outside calls.
\<close>

record client =
  client_id :: nat
  client_endpoint :: string
  client_headers :: "(string \<times> string) list"

datatype event =
    NewTransport string "(string \<times> string) list"
  | Connect nat
  | ListTools nat
  | CallTool nat string params_object

record state =
  clientCache :: "string \<rightharpoonup> (thrown + client)"
  trace :: "event list"
  clients_created :: nat

text \<open>
  A promise: when it settles (\<open>None\<close>: never) and with what. Awaiting a promise that
  never settles never returns, which is the result \<open>None\<close>.
\<close>

datatype 'a promise = Promise "nat option" "thrown + 'a"

fun await :: "'a promise \<Rightarrow> (thrown + 'a) option" where
  "await (Promise None r) = None"
| "await (Promise (Some t) r) = Some r"

section \<open>The TypeScript module\<close>

definition DEFAULT_ENDPOINT :: string where
  "DEFAULT_ENDPOINT = ''https://open.bigmodel.cn/api/mcp/web_search_prime/mcp''"

definition TOOL_NAME :: string where
  "TOOL_NAME = ''webSearchPrime''"

definition dquote :: char where
  "dquote = CHR 0x22"

record BigModelMCPOptions =
  apiKey :: "string option"
  endpoint :: "string option"
  transportHeaders :: "(string \<times> string) list option"
  reuseConnection :: "bool option"
  validateToolAvailability :: "bool option"
  timeoutMs :: "int option"

record output_meta =
  meta_endpoint :: string
  toolName :: string
  tookMs :: int
  requestedCount :: "json option"
  returnedCount :: nat
  reusedConnection :: bool

text \<open>
  The returned object. \<open>meta\<close> is \<open>None\<close> when the object has no such property (the
  CommonJS module returns \<^verbatim>\<open>{ items, rawBlocks }\<close>).
\<close>

record WebSearchPrimeOutput =
  items :: "WebSearchPrimeItem list"
  rawBlocks :: "json list"
  meta :: "output_meta option"

subsection \<open>\<^verbatim>\<open>createClientPromise\<close>, \<^verbatim>\<open>getOrCreateClient\<close>, \<^verbatim>\<open>createEphemeralClient\<close>\<close>

definition mergedHeaders :: "string \<Rightarrow> (string \<times> string) list option \<Rightarrow> (string \<times> string) list" where
  "mergedHeaders key headers =
     obj_assign [(''Authorization'', ''Bearer '' @ key)] (case headers of None \<Rightarrow> [] | Some h \<Rightarrow> h)"

text \<open>
  \<open>Inl\<close> is an exception thrown before a promise exists (\<^verbatim>\<open>new URL\<close> on a text that is
  no URL); \<open>Inr\<close> is the promise, settled with the client or with the wrapped rejection of
  \<^verbatim>\<open>connect\<close>.
\<close>

definition createClientPromise ::
  "world \<Rightarrow> state \<Rightarrow> string \<Rightarrow> string \<Rightarrow> (string \<times> string) list option
     \<Rightarrow> (thrown + (thrown + client)) \<times> state" where
  "createClientPromise W s ep key headers =
     (if \<not> url_parses W ep then (Inl UrlTypeError, s)
      else
        let c = \<lparr> client_id = clients_created s, client_endpoint = ep,
                  client_headers = mergedHeaders key headers \<rparr>;
            s' = s \<lparr> trace := trace s @ [NewTransport ep (mergedHeaders key headers),
                                         Connect (clients_created s)],
                     clients_created := Suc (clients_created s) \<rparr>
        in (Inr (case connect_result W of
                   None \<Rightarrow> Inr c
                 | Some e \<Rightarrow> Inl (MCPError \<lparr> message = ''Failed to connect MCP client'',
                                 code = TRANSPORT_OR_CONNECT_ERROR, details = ErrorDetails e \<rparr>)),
            s'))"

definition getOrCreateClient ::
  "world \<Rightarrow> state \<Rightarrow> string \<Rightarrow> string \<Rightarrow> (string \<times> string) list option
     \<Rightarrow> (thrown + client) \<times> state" where
  "getOrCreateClient W s ep key headers =
     (let k = ep @ ''::'' @ hashKey key in
      case clientCache s k of
        Some existing \<Rightarrow> (existing, s)
      | None \<Rightarrow>
          (case createClientPromise W s ep key headers of
             (Inl e, s') \<Rightarrow> (Inl e, s')
           | (Inr p, s') \<Rightarrow> (p, s' \<lparr> clientCache := (clientCache s')(k \<mapsto> p) \<rparr>)))"

definition createEphemeralClient ::
  "world \<Rightarrow> state \<Rightarrow> string \<Rightarrow> string \<Rightarrow> (string \<times> string) list option
     \<Rightarrow> (thrown + client) \<times> state" where
  "createEphemeralClient W s ep key headers =
     (case createClientPromise W s ep key headers of
        (Inl e, s') \<Rightarrow> (Inl e, s')
      | (Inr p, s') \<Rightarrow> (p, s'))"

subsection \<open>\<^verbatim>\<open>withSoftTimeout\<close>\<close>

definition timeout_error :: "nat \<Rightarrow> thrown" where
  "timeout_error ms =
     MCPError \<lparr> message = ''MCP call soft-timeout after '' @ show_nat ms @ ''ms'',
                code = TRANSPORT_OR_CONNECT_ERROR, details = NoDetails \<rparr>"

text \<open>
  \<^verbatim>\<open>setTimeout(f, timeoutMs)\<close>: Node runs the timer after \<open>timeoutMs\<close> milliseconds, but
  sets a delay above 2147483647 to 1 millisecond. (\<open>timeoutMs\<close> is an integer here, and
  it is printed in the message in decimal, as JavaScript prints an integer below \<open>10\<^sup>2\<^sup>1\<close>.)
\<close>

definition timer_delay :: "int \<Rightarrow> nat" where
  "timer_delay ms = (if 2147483647 < ms then 1 else nat ms)"

text \<open>Whether a timer of \<open>d\<close> milliseconds fires before a promise settles.\<close>

fun timer_first :: "bool \<Rightarrow> nat \<Rightarrow> nat option \<Rightarrow> bool" where
  "timer_first tie d None = True"
| "timer_first tie d (Some t) = (if d < t then True else if t < d then False else tie)"

text \<open>
  \<^verbatim>\<open>if (!timeoutMs || timeoutMs <= 0) return p\<close>; otherwise the new promise rejects when
  the timer fires first and follows \<open>p\<close> when \<open>p\<close> settles first.
\<close>

fun withSoftTimeout :: "bool \<Rightarrow> 'a promise \<Rightarrow> int option \<Rightarrow> 'a promise" where
  "withSoftTimeout tie p None = p"
| "withSoftTimeout tie (Promise t r) (Some ms) =
     (if ms = 0 then Promise t r
      else if ms \<le> 0 then Promise t r
      else if timer_first tie (timer_delay ms) t
        then Promise (Some (timer_delay ms)) (Inl (timeout_error (nat ms)))
      else Promise t r)"

subsection \<open>\<^verbatim>\<open>bigmodelWebSearchPrime\<close>\<close>

text \<open>
  \<^verbatim>\<open>Array.isArray(toolList?.tools) ? toolList.tools.some((t) => t?.name === TOOL_NAME) :
  false\<close>
\<close>

definition tool_exists :: "json \<Rightarrow> bool" where
  "tool_exists toolList =
     (case js_get ''tools'' toolList of
        Some (JArr ts) \<Rightarrow> list_ex (\<lambda>t. js_get ''name'' t = Some (JStr TOOL_NAME)) ts
      | _ \<Rightarrow> False)"

text \<open>Step 2 of the function, run only when \<^verbatim>\<open>options.validateToolAvailability\<close> is true.\<close>

definition validate_tool :: "world \<Rightarrow> string \<Rightarrow> thrown option" where
  "validate_tool W ep =
     (case listTools_result W of
        Inl e \<Rightarrow> Some (MCPError \<lparr> message = ''Failed to list tools on MCP server'',
                   code = TRANSPORT_OR_CONNECT_ERROR, details = ErrorDetails e \<rparr>)
      | Inr toolList \<Rightarrow>
          if \<not> tool_exists toolList then
            Some (MCPError \<lparr> message = ''Tool '' @ [dquote] @ TOOL_NAME @ [dquote]
                                @ '' not found on MCP endpoint '' @ ep,
                   code = INVALID_RESPONSE, details = ResponseDetails toolList \<rparr>)
          else None)"

text \<open>Step 3: \<^verbatim>\<open>client.callTool(...).catch(...)\<close>, the promise handed to the timeout.\<close>

definition callPromise :: "world \<Rightarrow> json promise" where
  "callPromise W =
     Promise (callTool_settles W)
       (case callTool_result W of
          Inl e \<Rightarrow> Inl (MCPError \<lparr> message = ''MCP callTool('' @ [dquote] @ TOOL_NAME @ [dquote]
                            @ '') failed'',
                    code = TRANSPORT_OR_CONNECT_ERROR, details = ErrorDetails e \<rparr>)
        | Inr result \<Rightarrow> Inr result)"

text \<open>Steps 4 and after: from the tool result to the returned object.\<close>

definition finish :: "json_parse \<Rightarrow> world \<Rightarrow> string \<Rightarrow> params_object \<Rightarrow> bool \<Rightarrow> json
    \<Rightarrow> thrown + WebSearchPrimeOutput" where
  "finish P W ep params reused result =
     (if truthy (js_get ''isError'' result) then
        Inl (MCPError \<lparr> message = ''MCP tool '' @ [dquote] @ TOOL_NAME @ [dquote]
                           @ '' returned isError=true'',
               code = MCP_TOOL_ERROR, details = ResponseDetails result \<rparr>)
      else
        let blocks = (case js_get ''content'' result of Some (JArr bs) \<Rightarrow> bs | _ \<Rightarrow> []);
            parsedItems = parseItemsFromBlocks P blocks;
            its = normalizeItems parsedItems
        in Inr \<lparr> items = its, rawBlocks = blocks,
                 meta = Some \<lparr> meta_endpoint = ep, toolName = TOOL_NAME,
                          tookMs = int (now_end W) - int (now_start W),
                          requestedCount = param_get ''count'' params,
                          returnedCount = length its,
                          reusedConnection = reused \<rparr> \<rparr>)"

text \<open>
  \<^verbatim>\<open>options.endpoint ?? DEFAULT_ENDPOINT\<close> and
  \<^verbatim>\<open>options.apiKey ?? process.env.BIGMODEL_API_KEY\<close>
\<close>

definition ts_endpoint :: "BigModelMCPOptions \<Rightarrow> string" where
  "ts_endpoint options = (case endpoint options of None \<Rightarrow> DEFAULT_ENDPOINT | Some e \<Rightarrow> e)"

definition credential :: "world \<Rightarrow> BigModelMCPOptions \<Rightarrow> string option" where
  "credential W options =
     (case apiKey options of None \<Rightarrow> env_BIGMODEL_API_KEY W | Some k \<Rightarrow> Some k)"

definition missing_api_key :: thrown where
  "missing_api_key =
     MCPError \<lparr> message = ''Missing BigModel API key: pass options.apiKey or set BIGMODEL_API_KEY'',
                code = MISSING_API_KEY, details = NoDetails \<rparr>"

text \<open>
  Step 1: \<^verbatim>\<open>const reusedConnection = options.reuseConnection !== false\<close>, then the cached
  or the ephemeral client.
\<close>

definition acquire ::
  "world \<Rightarrow> state \<Rightarrow> string \<Rightarrow> BigModelMCPOptions \<Rightarrow> (thrown + client) \<times> state" where
  "acquire W s k options =
     (if reuseConnection options \<noteq> Some False
      then getOrCreateClient W s (ts_endpoint options) k (transportHeaders options)
      else createEphemeralClient W s (ts_endpoint options) k (transportHeaders options))"

text \<open>
  Steps 2 to 4, with the client in hand. The result is \<open>None\<close> when the call never
  returns (no timeout and a \<^verbatim>\<open>callTool\<close> that never settles), otherwise what is thrown
  or returned; the second component is the module state afterwards.
\<close>

definition invoke_tool ::
  "json_parse \<Rightarrow> world \<Rightarrow> state \<Rightarrow> params_object \<Rightarrow> BigModelMCPOptions \<Rightarrow> client
     \<Rightarrow> (thrown + WebSearchPrimeOutput) option \<times> state" where
  "invoke_tool P W s1 params options c =
     (let s2 = (if validateToolAvailability options = Some True
                then s1 \<lparr> trace := trace s1 @ [ListTools (client_id c)] \<rparr> else s1)
      in
      case (if validateToolAvailability options = Some True
            then validate_tool W (ts_endpoint options) else None) of
        Some e \<Rightarrow> (Some (Inl e), s2)
      | None \<Rightarrow>
          let s3 = s2 \<lparr> trace := trace s2 @ [CallTool (client_id c) TOOL_NAME params] \<rparr>
          in
          (case await (withSoftTimeout (timer_first_on_tie W) (callPromise W)
                         (timeoutMs options)) of
             None \<Rightarrow> (None, s3)
           | Some (Inl e) \<Rightarrow> (Some (Inl e), s3)
           | Some (Inr result) \<Rightarrow>
               (Some (finish P W (ts_endpoint options) params
                        (reuseConnection options \<noteq> Some False) result), s3)))"

text \<open>The whole function: the credential check, step 1, then the rest.\<close>

definition bigmodelWebSearchPrime ::
  "json_parse \<Rightarrow> world \<Rightarrow> state \<Rightarrow> params_object \<Rightarrow> BigModelMCPOptions
     \<Rightarrow> (thrown + WebSearchPrimeOutput) option \<times> state" where
  "bigmodelWebSearchPrime P W s params options =
     (case credential W options of
        None \<Rightarrow> (Some (Inl missing_api_key), s)
      | Some k \<Rightarrow>
          if k = [] then (Some (Inl missing_api_key), s)
          else if trim k = [] then (Some (Inl missing_api_key), s)
          else
            (case acquire W s k options of
               (Inl e, s1) \<Rightarrow> (Some (Inl e), s1)
             | (Inr c, s1) \<Rightarrow> invoke_tool P W s1 params options c))"

section \<open>The CommonJS module\<close>

text \<open>
  \<^verbatim>\<open>_toParams\<close>. The spread \<^verbatim>\<open>{ count: 10, content_size: 'medium', location: 'cn',
  ...input }\<close> copies every own property of the input over the defaults, one whose value
  is \<^verbatim>\<open>undefined\<close> as well.
\<close>

datatype query_or_params = Query string | Params params_object

fun js_toParams :: "query_or_params \<Rightarrow> params_object" where
  "js_toParams (Query input) =
     [(''search_query'', Some (JStr input)), (''count'', Some (JNum 10)),
      (''content_size'', Some (JStr ''medium'')), (''location'', Some (JStr ''cn''))]"
| "js_toParams (Params input) =
     obj_assign [(''count'', Some (JNum 10)), (''content_size'', Some (JStr ''medium'')),
                 (''location'', Some (JStr ''cn''))]
       input"

text \<open>
  The asynchronous function that builds the client: everything it throws, the
  \<^verbatim>\<open>TypeError\<close> of \<^verbatim>\<open>new URL\<close> included, is the rejection of its promise. (The
  two \<^verbatim>\<open>await import(...)\<close> of the SDK before it are taken to succeed.)
\<close>

definition js_clientPromise :: "world \<Rightarrow> state \<Rightarrow> string \<Rightarrow> string \<Rightarrow> (thrown + client) \<times> state" where
  "js_clientPromise W s ep key =
     (if \<not> url_parses W ep then (Inl UrlTypeError, s)
      else
        let c = \<lparr> client_id = clients_created s, client_endpoint = ep,
                  client_headers = [(''Authorization'', ''Bearer '' @ key)] \<rparr>;
            s' = s \<lparr> trace := trace s @ [NewTransport ep [(''Authorization'', ''Bearer '' @ key)],
                                         Connect (clients_created s)],
                     clients_created := Suc (clients_created s) \<rparr>
        in (case connect_result W of None \<Rightarrow> Inr c | Some e \<Rightarrow> Inl (Raw e), s'))"

definition js_finish :: "json_parse \<Rightarrow> json_stringify \<Rightarrow> json \<Rightarrow> thrown + WebSearchPrimeOutput" where
  "js_finish P S result =
     (if truthy (Some result) \<and> truthy (js_get ''isError'' result) then
        Inl (PlainError (''MCP tool '' @ [dquote] @ ''webSearchPrime'' @ [dquote] @ '' error: ''
                           @ S result))
      else
        let blocks = (case js_get ''content'' result of Some (JArr bs) \<Rightarrow> bs | _ \<Rightarrow> []);
            parsed = js_extractArrayFromBlocks P blocks
        in Inr \<lparr> items = js_normalizeItems parsed, rawBlocks = blocks, meta = None \<rparr>)"

text \<open>
  \<^verbatim>\<open>options.endpoint || DEFAULT_ENDPOINT\<close>,
  \<^verbatim>\<open>options.apiKey || process.env.BIGMODEL_API_KEY\<close> (an empty text is falsy), and the
  cache key.
\<close>

definition js_endpoint :: "BigModelMCPOptions \<Rightarrow> string" where
  "js_endpoint options =
     (case endpoint options of None \<Rightarrow> DEFAULT_ENDPOINT
      | Some e \<Rightarrow> if e = [] then DEFAULT_ENDPOINT else e)"

definition js_credential :: "world \<Rightarrow> BigModelMCPOptions \<Rightarrow> string option" where
  "js_credential W options =
     (case apiKey options of None \<Rightarrow> env_BIGMODEL_API_KEY W
      | Some k \<Rightarrow> if k = [] then env_BIGMODEL_API_KEY W else Some k)"

definition js_missing_api_key :: thrown where
  "js_missing_api_key =
     PlainError ''Missing BigModel API key: pass options.apiKey or set BIGMODEL_API_KEY''"

definition js_cacheKey :: "world \<Rightarrow> string \<Rightarrow> BigModelMCPOptions \<Rightarrow> string" where
  "js_cacheKey W k options =
     (if reuseConnection options = Some False
      then ''ephemeral::'' @ show_nat (now_start W)
      else js_endpoint options @ ''::'' @ hashKey k)"

text \<open>
  \<^verbatim>\<open>let clientPromise = _clientCache.get(cacheKey); if (!clientPromise) { clientPromise =
  (async () => ...)(); _clientCache.set(cacheKey, clientPromise) }\<close>
\<close>

definition js_acquire ::
  "world \<Rightarrow> state \<Rightarrow> string \<Rightarrow> BigModelMCPOptions \<Rightarrow> (thrown + client) \<times> state" where
  "js_acquire W s k options =
     (case clientCache s (js_cacheKey W k options) of
        Some p \<Rightarrow> (p, s)
      | None \<Rightarrow>
          (case js_clientPromise W s (js_endpoint options) k of
             (p, s') \<Rightarrow> (p, s' \<lparr> clientCache := (clientCache s')(js_cacheKey W k options \<mapsto> p) \<rparr>)))"

text \<open>
  \<^verbatim>\<open>await client.callTool(...)\<close> and what follows; the rejection of \<^verbatim>\<open>callTool\<close> is
  thrown as it is, and nothing bounds the wait.
\<close>

definition js_invoke_tool ::
  "json_parse \<Rightarrow> json_stringify \<Rightarrow> world \<Rightarrow> state \<Rightarrow> params_object \<Rightarrow> client
     \<Rightarrow> (thrown + WebSearchPrimeOutput) option \<times> state" where
  "js_invoke_tool P S W s1 params c =
     (let s2 = s1 \<lparr> trace := trace s1 @ [CallTool (client_id c) ''webSearchPrime'' params] \<rparr>
      in
      case callTool_settles W of
        None \<Rightarrow> (None, s2)
      | Some t \<Rightarrow>
          (case callTool_result W of
             Inl e \<Rightarrow> (Some (Inl (Raw e)), s2)
           | Inr result \<Rightarrow> (Some (js_finish P S result), s2)))"

definition js_webSearchPrime ::
  "json_parse \<Rightarrow> json_stringify \<Rightarrow> world \<Rightarrow> state \<Rightarrow> query_or_params \<Rightarrow> BigModelMCPOptions
     \<Rightarrow> (thrown + WebSearchPrimeOutput) option \<times> state" where
  "js_webSearchPrime P S W s queryOrParams options =
     (case js_credential W options of
        None \<Rightarrow> (Some (Inl js_missing_api_key), s)
      | Some k \<Rightarrow>
          if k = [] then (Some (Inl js_missing_api_key), s)
          else
            (case js_acquire W s k options of
               (Inl e, s1) \<Rightarrow> (Some (Inl e), s1)
             | (Inr c, s1) \<Rightarrow> js_invoke_tool P S W s1 (js_toParams queryOrParams) c))"

section \<open>Notions of the specification, and a sample world\<close>

text \<open>A credential is blank when it is empty or holds white space only.\<close>

definition blank :: "string \<Rightarrow> bool" where
  "blank k = list_all js_whitespace k"

text \<open>
  The title in the specification's words: the first present alias, else the URL itself.
\<close>

definition spec_title :: "(json option \<Rightarrow> bool) \<Rightarrow> string list \<Rightarrow> json \<Rightarrow> string \<Rightarrow> json option" where
  "spec_title present aliases r u =
     (case first_present present aliases r of None \<Rightarrow> Some (JStr u) | Some v \<Rightarrow> Some v)"

text \<open>
  A world in which everything outside works: no ambient credential, every endpoint text
  is a URL, \<^verbatim>\<open>connect\<close> succeeds, and \<^verbatim>\<open>callTool\<close> answers at once with an empty
  object. The module state before any call, and the options object \<^verbatim>\<open>{}\<close>.
\<close>

definition sample_world :: world where
  "sample_world =
     \<lparr> env_BIGMODEL_API_KEY = None, now_start = 0, now_end = 0, url_parses = (\<lambda>u. True),
       connect_result = None, listTools_result = Inr JNull, callTool_result = Inr (JObj []),
       callTool_settles = Some 0, timer_first_on_tie = False \<rparr>"

definition initial_state :: state where
  "initial_state = \<lparr> clientCache = Map.empty, trace = [], clients_created = 0 \<rparr>"

definition no_options :: BigModelMCPOptions where
  "no_options =
     \<lparr> apiKey = None, endpoint = None, transportHeaders = None, reuseConnection = None,
       validateToolAvailability = None, timeoutMs = None \<rparr>"

section \<open>A JSON codec for the examples\<close>

text \<open>
  The functions of the adapter take \<^verbatim>\<open>JSON.parse\<close> and \<^verbatim>\<open>JSON.stringify\<close> as
  parameters. The codec below instantiates them in the examples. It covers the JSON texts
  whose numbers are integers and whose strings hold code units below 256; on other texts
  (a fraction, an exponent, an escape of a larger code unit) it fails where
  \<^verbatim>\<open>JSON.parse\<close> would not.
\<close>

definition backslash :: char where
  "backslash = CHR 0x5C"

definition hex_digit :: "nat \<Rightarrow> char" where
  "hex_digit d = ''0123456789abcdef'' ! d"

text \<open>\<^verbatim>\<open>JSON.stringify\<close>: a string is quoted, with the escapes of the standard.\<close>

definition escape_char :: "char \<Rightarrow> string" where
  "escape_char c =
     (if c = dquote then [backslash, dquote]
      else if c = backslash then [backslash, backslash]
      else if c = CHR 0x08 then [backslash, CHR ''b'']
      else if c = CHR 0x0C then [backslash, CHR ''f'']
      else if c = CHR 0x0A then [backslash, CHR ''n'']
      else if c = CHR 0x0D then [backslash, CHR ''r'']
      else if c = CHR 0x09 then [backslash, CHR ''t'']
      else if (of_char c :: nat) < 32 then
        [backslash, CHR ''u'', CHR ''0'', CHR ''0'', hex_digit (of_char c div 16), hex_digit (of_char c mod 16)]
      else [c])"

definition quote :: "string \<Rightarrow> string" where
  "quote s = dquote # concat (map escape_char s) @ [dquote]"

fun show_int :: "int \<Rightarrow> string" where
  "show_int n = (if n < 0 then CHR ''-'' # show_nat (nat (- n)) else show_nat (nat n))"

fun join :: "string \<Rightarrow> string list \<Rightarrow> string" where
  "join sep [] = []"
| "join sep [x] = x"
| "join sep (x # y # ys) = x @ sep @ join sep (y # ys)"

fun stringify :: "json \<Rightarrow> string" where
  "stringify JNull = ''null''"
| "stringify (JBool b) = (if b then ''true'' else ''false'')"
| "stringify (JNum n) = show_int n"
| "stringify (JStr s) = quote s"
| "stringify (JArr xs) = ''['' @ join '','' (map stringify xs) @ '']''"
| "stringify (JObj kvs) =
     ''{'' @ join '','' (map (\<lambda>kv. quote (fst kv) @ '':'' @ stringify (snd kv)) kvs) @ ''}''"

text \<open>
  \<^verbatim>\<open>JSON.parse\<close> by recursive descent. The first argument of \<open>parse_value\<close> and its
  companions bounds the depth of the recursion; \<open>parse_json\<close> starts with more than the
  text can use.
\<close>

definition is_ws :: "char \<Rightarrow> bool" where
  "is_ws c = (c \<in> set [CHR '' '', CHR 0x09, CHR 0x0A, CHR 0x0D])"

definition skip_ws :: "string \<Rightarrow> string" where
  "skip_ws s = dropWhile is_ws s"

definition is_digit :: "char \<Rightarrow> bool" where
  "is_digit c = (c \<in> set ''0123456789'')"

definition hex_value :: "char \<Rightarrow> nat option" where
  "hex_value c =
     (let n = (of_char c :: nat) in
      if 48 \<le> n \<and> n \<le> 57 then Some (n - 48)
      else if 97 \<le> n \<and> n \<le> 102 then Some (n - 87)
      else if 65 \<le> n \<and> n \<le> 70 then Some (n - 55)
      else None)"

definition unescape :: "char \<Rightarrow> char option" where
  "unescape e =
     (if e = dquote then Some dquote
      else if e = backslash then Some backslash
      else if e = CHR ''/'' then Some (CHR ''/'')
      else if e = CHR ''b'' then Some (CHR 0x08)
      else if e = CHR ''f'' then Some (CHR 0x0C)
      else if e = CHR ''n'' then Some (CHR 0x0A)
      else if e = CHR ''r'' then Some (CHR 0x0D)
      else if e = CHR ''t'' then Some (CHR 0x09)
      else None)"

definition unicode_escape :: "char \<Rightarrow> char \<Rightarrow> char \<Rightarrow> char \<Rightarrow> char option" where
  "unicode_escape h1 h2 h3 h4 =
     (case (hex_value h1, hex_value h2, hex_value h3, hex_value h4) of
        (Some a, Some b, Some c, Some d) \<Rightarrow>
          (if a = 0 \<and> b = 0 then Some (char_of (16 * c + d)) else None)
      | _ \<Rightarrow> None)"

fun parse_chars :: "string \<Rightarrow> (string \<times> string) option" where
  "parse_chars [] = None"
| "parse_chars (c # cs) =
     (if c = dquote then Some ([], cs)
      else if c = backslash then
        (case cs of
           [] \<Rightarrow> None
         | e # r \<Rightarrow>
             if e = CHR ''u'' then
               (case r of
                  h1 # h2 # h3 # h4 # r' \<Rightarrow>
                    (case unicode_escape h1 h2 h3 h4 of
                       None \<Rightarrow> None
                     | Some ch \<Rightarrow> map_option (apfst ((#) ch)) (parse_chars r'))
                | _ \<Rightarrow> None)
             else
               (case unescape e of
                  None \<Rightarrow> None
                | Some ch \<Rightarrow> map_option (apfst ((#) ch)) (parse_chars r)))
      else if (of_char c :: nat) < 32 then None
      else map_option (apfst ((#) c)) (parse_chars cs))"

definition strip_prefix :: "string \<Rightarrow> string \<Rightarrow> string option" where
  "strip_prefix p s = (if take (length p) s = p then Some (drop (length p) s) else None)"

definition digits_value :: "string \<Rightarrow> nat" where
  "digits_value ds = foldl (\<lambda>a c. 10 * a + (of_char c - 48)) 0 ds"

definition parse_number :: "string \<Rightarrow> (json \<times> string) option" where
  "parse_number s =
     (let neg = (case s of [] \<Rightarrow> False | c # cs \<Rightarrow> c = CHR ''-'');
          r = (if neg then tl s else s);
          ds = takeWhile is_digit r;
          rest = dropWhile is_digit r
      in if ds = [] then None
         else if 1 < length ds \<and> hd ds = CHR ''0'' then None
         else if (case rest of [] \<Rightarrow> False | c # cs \<Rightarrow> c \<in> set ''.eE'') then None
         else Some (JNum (if neg then - int (digits_value ds) else int (digits_value ds)), rest))"

definition obj_cons :: "string \<Rightarrow> json \<Rightarrow> (string \<times> json) list \<Rightarrow> (string \<times> json) list" where
  "obj_cons k v ms =
     (case map_of ms k of
        None \<Rightarrow> (k, v) # ms
      | Some v' \<Rightarrow> (k, v') # filter (\<lambda>m. fst m \<noteq> k) ms)"

fun parse_value :: "nat \<Rightarrow> string \<Rightarrow> (json \<times> string) option"
  and parse_elements :: "nat \<Rightarrow> string \<Rightarrow> (json list \<times> string) option"
  and parse_members :: "nat \<Rightarrow> string \<Rightarrow> ((string \<times> json) list \<times> string) option" where
  "parse_value 0 s = None"
| "parse_value (Suc n) s =
     (case skip_ws s of
        [] \<Rightarrow> None
      | c # cs \<Rightarrow>
          if c = CHR ''n'' then map_option (Pair JNull) (strip_prefix ''ull'' cs)
          else if c = CHR ''t'' then map_option (Pair (JBool True)) (strip_prefix ''rue'' cs)
          else if c = CHR ''f'' then map_option (Pair (JBool False)) (strip_prefix ''alse'' cs)
          else if c = dquote then map_option (apfst JStr) (parse_chars cs)
          else if c = CHR ''['' then
            (case skip_ws cs of
               [] \<Rightarrow> None
             | d # ds \<Rightarrow> if d = CHR '']'' then Some (JArr [], ds)
                         else map_option (apfst JArr) (parse_elements n cs))
          else if c = CHR ''{'' then
            (case skip_ws cs of
               [] \<Rightarrow> None
             | d # ds \<Rightarrow> if d = CHR ''}'' then Some (JObj [], ds)
                         else map_option (apfst JObj) (parse_members n cs))
          else parse_number (c # cs))"
| "parse_elements 0 s = None"
| "parse_elements (Suc n) s =
     (case parse_value n s of
        None \<Rightarrow> None
      | Some (v, r) \<Rightarrow>
          (case skip_ws r of
             [] \<Rightarrow> None
           | c # cs \<Rightarrow>
               if c = CHR '','' then map_option (apfst ((#) v)) (parse_elements n cs)
               else if c = CHR '']'' then Some ([v], cs)
               else None))"
| "parse_members 0 s = None"
| "parse_members (Suc n) s =
     (case skip_ws s of
        [] \<Rightarrow> None
      | q # qs \<Rightarrow>
          if q = dquote then
            (case parse_chars qs of
               None \<Rightarrow> None
             | Some (k, r) \<Rightarrow>
                 (case skip_ws r of
                    [] \<Rightarrow> None
                  | c # cs \<Rightarrow>
                      if c = CHR '':'' then
                        (case parse_value n cs of
                           None \<Rightarrow> None
                         | Some (v, r') \<Rightarrow>
                             (case skip_ws r' of
                                [] \<Rightarrow> None
                              | d # ds \<Rightarrow>
                                  if d = CHR '','' then map_option (apfst (obj_cons k v)) (parse_members n ds)
                                  else if d = CHR ''}'' then Some ([(k, v)], ds)
                                  else None))
                      else None))
          else None)"

definition parse_json :: "string \<Rightarrow> json option" where
  "parse_json s =
     (case parse_value (2 * length s + 2) s of
        None \<Rightarrow> None
      | Some (v, r) \<Rightarrow> if skip_ws r = [] then Some v else None)"

text \<open>
  The specification's end-to-end example: the record, the block text, the tool result,
  the world that gives this result, the call and what it returns.
\<close>

definition example_record :: json where
  "example_record =
     JObj [(''title'', JStr ''T''), (''link'', JStr ''http://x''), (''content'', JStr ''S'')]"

definition example_text :: string where
  "example_text = stringify (JArr [example_record])"

definition example_response :: json where
  "example_response = JObj [(''content'', JArr [text_block example_text])]"

definition example_world :: world where
  "example_world = sample_world \<lparr> callTool_result := Inr example_response \<rparr>"

definition example_params :: params_object where
  "example_params = [(''search_query'', Some (JStr ''test'')), (''count'', Some (JNum 5))]"

definition example_options :: BigModelMCPOptions where
  "example_options = no_options \<lparr> apiKey := Some ''key'' \<rparr>"

definition example_output :: WebSearchPrimeOutput where
  "example_output =
     \<lparr> items = [\<lparr> title = Some (JStr ''T''), url = ''http://x'', summary = Some (JStr ''S''),
                  icon = None, siteName = None, media = None, publishedAt = None, refer = None,
                  raw = example_record \<rparr>],
       rawBlocks = [text_block example_text],
       meta = Some \<lparr> meta_endpoint = DEFAULT_ENDPOINT, toolName = ''webSearchPrime'', tookMs = 0,
                requestedCount = Some (JNum 5), returnedCount = 1, reusedConnection = True \<rparr> \<rparr>"

text \<open>
  A record with an empty \<^verbatim>\<open>link\<close> and a \<^verbatim>\<open>url\<close>, and the block text that holds it.
\<close>

definition empty_link_record :: json where
  "empty_link_record = JObj [(''link'', JStr []), (''url'', JStr ''http://u1'')]"

definition empty_link_text :: string where
  "empty_link_text = stringify (JArr [empty_link_record])"

section \<open>Notions used in the statements\<close>

text \<open>
  A call of the TypeScript function gets as far as \<^verbatim>\<open>callTool\<close> when the credential
  is there and not blank, a client is obtained, and the tool check, if asked for, passes.
  For the CommonJS function there is no tool check and only an empty credential is refused.
\<close>

definition proceeds_to_call :: "world \<Rightarrow> state \<Rightarrow> BigModelMCPOptions \<Rightarrow> bool" where
  "proceeds_to_call W s options =
     (case credential W options of
        None \<Rightarrow> False
      | Some k \<Rightarrow>
          (if blank k then False
           else (case fst (acquire W s k options) of
                   Inl e \<Rightarrow> False
                 | Inr c \<Rightarrow>
                     (if validateToolAvailability options = Some True
                      then validate_tool W (ts_endpoint options) = None else True))))"

definition js_proceeds_to_call :: "world \<Rightarrow> state \<Rightarrow> BigModelMCPOptions \<Rightarrow> bool" where
  "js_proceeds_to_call W s options =
     (case js_credential W options of
        None \<Rightarrow> False
      | Some k \<Rightarrow>
          (if k = [] then False
           else (case fst (js_acquire W s k options) of Inl e \<Rightarrow> False | Inr c \<Rightarrow> True)))"

text \<open>
  The answer arrives in time when the promise of \<^verbatim>\<open>callTool\<close> settles and no active
  timer fires before it (the timer of a \<open>timeoutMs\<close> above 2147483647 fires after one
  millisecond); the local wait exceeds a deadline of \<open>ms\<close> milliseconds when the promise
  settles later than that, or never.
\<close>

definition answers_in_time :: "world \<Rightarrow> BigModelMCPOptions \<Rightarrow> bool" where
  "answers_in_time W options =
     (case callTool_settles W of
        None \<Rightarrow> False
      | Some t \<Rightarrow>
          (case timeoutMs options of
             None \<Rightarrow> True
           | Some ms \<Rightarrow> (if ms \<le> 0 then True
                        else \<not> timer_first (timer_first_on_tie W) (timer_delay ms) (Some t))))"

definition wait_exceeds_deadline :: "world \<Rightarrow> nat \<Rightarrow> bool" where
  "wait_exceeds_deadline W ms =
     (case callTool_settles W of None \<Rightarrow> True | Some t \<Rightarrow> ms < t)"

text \<open>The code of an error of the TypeScript module, and the tool invocations in a trace.\<close>

fun error_code_of :: "(thrown + 'a) option \<Rightarrow> error_code option" where
  "error_code_of (Some (Inl (MCPError e))) = Some (code e)"
| "error_code_of r = None"

fun call_of :: "event \<Rightarrow> (string \<times> params_object) option" where
  "call_of (CallTool c name args) = Some (name, args)"
| "call_of e = None"

definition invocations :: "event list \<Rightarrow> (string \<times> params_object) list" where
  "invocations evs = List.map_filter call_of evs"

section \<open>Properties of the normalizer\<close>

subsection \<open>Deduplication that keeps the first occurrence\<close>

lemma set_keep_first: "set (keep_first f xs) \<subseteq> set xs"
  by (induction f xs rule: keep_first.induct) auto

lemma distinct_keep_first: "distinct (map f (keep_first f xs))"
proof (induction f xs rule: keep_first.induct)
  case (1 f)
  then show ?case by simp
next
  case (2 f x xs)
  have "f x \<notin> f ` set (keep_first f (filter (\<lambda>y. f y \<noteq> f x) xs))"
    using set_keep_first [of f "filter (\<lambda>y. f y \<noteq> f x) xs"] by auto
  with 2 show ?case by simp
qed

lemma keys_keep_first: "f ` set (keep_first f xs) = f ` set xs"
  by (induction f xs rule: keep_first.induct) auto

lemma subseq_keep_first: "subseq (keep_first f xs) xs"
proof (induction f xs rule: keep_first.induct)
  case (1 f)
  then show ?case by simp
next
  case (2 f x xs)
  have "subseq (filter (\<lambda>y. f y \<noteq> f x) xs) xs" by simp
  with 2 have "subseq (keep_first f (filter (\<lambda>y. f y \<noteq> f x) xs)) xs"
    using subseq_order.order_trans by blast
  then show ?case by simp
qed

lemma find_keep_first: "x \<in> set (keep_first f xs) \<Longrightarrow> find (\<lambda>y. f y = f x) xs = Some x"
proof (induction f xs rule: keep_first.induct)
  case (1 f)
  then show ?case by simp
next
  case (2 f a xs)
  show ?case
  proof (cases "x = a")
    case True
    then show ?thesis by simp
  next
    case False
    with 2 have in_rest: "x \<in> set (keep_first f (filter (\<lambda>y. f y \<noteq> f a) xs))" by simp
    then have "x \<in> set (filter (\<lambda>y. f y \<noteq> f a) xs)" using set_keep_first by fastforce
    then have ne: "f x \<noteq> f a" by simp
    have "find (\<lambda>y. f y = f x) (filter (\<lambda>y. f y \<noteq> f a) xs) = Some x"
      using 2 in_rest by simp
    moreover have "find (\<lambda>y. f y = f x) (filter (\<lambda>y. f y \<noteq> f a) xs) = find (\<lambda>y. f y = f x) xs"
      using ne by (induction xs) auto
    ultimately show ?thesis using ne by simp
  qed
qed

subsection \<open>Both loops compute the specification's normalizer\<close>

lemma checked_url_eq: "checked_url u = nonempty_text u"
  apply (cases u)
   apply (simp add: checked_url_def nonempty_text_def)
  subgoal for v by (cases v) (simp_all add: checked_url_def nonempty_text_def)
  done

lemma first_present_Nil: "first_present p [] r = None"
  by (simp add: first_present_def)

lemma first_present_Cons:
  "first_present p (k # ks) r = (if p (js_get k r) then js_get k r else first_present p ks r)"
  by (simp add: first_present_def)

lemma keep_first_map: "keep_first f (map g xs) = map g (keep_first (\<lambda>x. f (g x)) xs)"
proof (induction "\<lambda>x. f (g x)" xs rule: keep_first.induct)
  case 1
  then show ?case by simp
next
  case (2 x xs)
  then show ?case by (simp add: filter_map o_def)
qed

lemma nonempty_text_guard:
  "nonempty_text (if typeof v = ''string'' then v else None) =
     nonempty_text (if nullish v then None else v)"
proof (cases v)
  case None
  then show ?thesis by (simp add: nonempty_text_def)
next
  case (Some w)
  then show ?thesis by (cases w) (simp_all add: nonempty_text_def)
qed

lemma item_url_resolvable: "nonempty_text (item_url r) = resolvable_url not_nullish r"
proof -
  define a b c d where "a = js_get ''link'' r" and "b = js_get ''url'' r"
    and "c = js_get ''href'' r" and "d = js_get ''sourceUrl'' r"
  have code: "nonempty_text (item_url r) =
      (if nullish a then if nullish b then if nullish c
         then nonempty_text (if typeof d = ''string'' then d else None)
         else nonempty_text c else nonempty_text b else nonempty_text a)"
    unfolding item_url_def coalesce_def a_def b_def c_def d_def by simp
  have spec: "resolvable_url not_nullish r =
      (if nullish a then if nullish b then if nullish c
         then nonempty_text (if nullish d then None else d)
         else nonempty_text c else nonempty_text b else nonempty_text a)"
    unfolding resolvable_url_def first_present_Cons first_present_Nil not_nullish_def
      a_def b_def c_def d_def by simp
  show ?thesis unfolding code spec nonempty_text_guard ..
qed

lemma normalize_record_resolvable:
  "normalize_record r = map_option (\<lambda>u. (u, make_item r u)) (resolvable_url not_nullish r)"
proof (cases "truthy (Some r) \<and> typeof (Some r) = ''object''")
  case True
  then show ?thesis
    by (simp add: normalize_record_def checked_url_eq item_url_resolvable split: option.split)
next
  case False
  then have "js_get k r = None" for k by (cases r) auto
  then have "resolvable_url not_nullish r = None"
    by (simp add: resolvable_url_def first_present_def not_nullish_def nonempty_text_def)
  with False show ?thesis by (auto simp add: normalize_record_def)
qed

lemma normalizeItems_loop_eq:
  "normalizeItems_loop seen result rs =
     result @ map snd (keep_first fst (filter (\<lambda>p. fst p \<notin> seen) (List.map_filter normalize_record rs)))"
proof (induction rs arbitrary: seen result)
  case Nil
  then show ?case by simp
next
  case (Cons r rs)
  show ?case
  proof (cases "normalize_record r")
    case None
    then show ?thesis using Cons by simp
  next
    case (Some p)
    obtain u item where p: "p = (u, item)" by (cases p)
    have ff: "filter (\<lambda>y. fst y \<noteq> u) (filter (\<lambda>p. fst p \<notin> seen) xs) = filter (\<lambda>p. fst p \<notin> insert u seen) xs" for xs :: "(string \<times> WebSearchPrimeItem) list"
      by (induction xs) auto
    show ?thesis using Cons Some p by (simp add: conj_commute)
  qed
qed


lemma nonempty_text_truthy: "nonempty_text (if truthy v then v else None) = nonempty_text v"
proof (cases v)
  case None
  then show ?thesis by simp
next
  case (Some w)
  then show ?thesis by (cases w) (simp_all add: nonempty_text_def)
qed

lemma js_item_link_resolvable: "nonempty_text (js_item_link r) = resolvable_url truthy r"
proof -
  define a b c d where "a = js_get ''link'' r" and "b = js_get ''url'' r"
    and "c = js_get ''href'' r" and "d = js_get ''sourceUrl'' r"
  have code: "nonempty_text (js_item_link r) =
      (if truthy a then nonempty_text a else if truthy b then nonempty_text b
       else if truthy c then nonempty_text c else nonempty_text d)"
    unfolding js_item_link_def js_or_def a_def b_def c_def d_def by simp
  have spec: "resolvable_url truthy r =
      (if truthy a then nonempty_text a else if truthy b then nonempty_text b
       else if truthy c then nonempty_text c else nonempty_text (if truthy d then d else None))"
    unfolding resolvable_url_def first_present_Cons first_present_Nil
      a_def b_def c_def d_def by simp
  show ?thesis unfolding code spec nonempty_text_truthy ..
qed

lemma js_normalize_record_resolvable:
  "js_normalize_record r = map_option (\<lambda>u. (u, js_make_item r u)) (resolvable_url truthy r)"
proof (cases "truthy (Some r) \<and> typeof (Some r) = ''object''")
  case True
  then show ?thesis
    by (simp add: js_normalize_record_def checked_url_eq js_item_link_resolvable split: option.split)
next
  case False
  then have "js_get k r = None" for k by (cases r) auto
  then have "resolvable_url truthy r = None"
    by (simp add: resolvable_url_def first_present_def nonempty_text_def)
  with False show ?thesis by (auto simp add: js_normalize_record_def)
qed

lemma js_normalizeItems_loop_eq:
  "js_normalizeItems_loop seen out rs =
     out @ map snd (keep_first fst (filter (\<lambda>p. fst p \<notin> seen) (List.map_filter js_normalize_record rs)))"
proof (induction rs arbitrary: seen out)
  case Nil
  then show ?case by simp
next
  case (Cons r rs)
  show ?case
  proof (cases "js_normalize_record r")
    case None
    then show ?thesis using Cons by simp
  next
    case (Some p)
    obtain u item where p: "p = (u, item)" by (cases p)
    show ?thesis using Cons Some p by (simp add: conj_commute)
  qed
qed

lemma map_filter_resolved:
  "List.map_filter (\<lambda>r. map_option (\<lambda>u. (u, build r u)) (resolve r)) rs =
     map (\<lambda>(r, u). (u, build r u)) (List.map_filter (\<lambda>r. map_option (Pair r) (resolve r)) rs)"
  by (induction rs) (auto split: option.split)

lemma loop_result_spec:
  "map snd (keep_first fst (List.map_filter (\<lambda>r. map_option (\<lambda>u. (u, build r u)) (resolve r)) rs)) =
     spec_normalize resolve build rs"
  by (simp add: spec_normalize_def candidates_def map_filter_resolved keep_first_map
      case_prod_unfold o_def)

lemma normalizeItems_spec:
  "normalizeItems rs = spec_normalize (resolvable_url not_nullish) make_item rs"
proof -
  have eq: "(\<lambda>r. map_option (\<lambda>u. (u, make_item r u)) (resolvable_url not_nullish r)) = normalize_record"
    by (rule ext) (simp add: normalize_record_resolvable)
  show ?thesis
    using loop_result_spec [of make_item "resolvable_url not_nullish" rs]
    by (simp add: normalizeItems_def normalizeItems_loop_eq eq)
qed

lemma js_normalizeItems_spec:
  "js_normalizeItems rs = spec_normalize (resolvable_url truthy) js_make_item rs"
proof -
  have eq: "(\<lambda>r. map_option (\<lambda>u. (u, js_make_item r u)) (resolvable_url truthy r)) = js_normalize_record"
    by (rule ext) (simp add: js_normalize_record_resolvable)
  show ?thesis
    using loop_result_spec [of js_make_item "resolvable_url truthy" rs]
    by (simp add: js_normalizeItems_def js_normalizeItems_loop_eq eq)
qed

subsection \<open>What the specification's normalizer returns\<close>

lemma candidates_fst: "map fst (candidates resolve rs) = filter (\<lambda>r. resolve r \<noteq> None) rs"
  by (induction rs) (auto simp: candidates_def split: option.split)

lemma candidates_snd: "map snd (candidates resolve rs) = List.map_filter resolve rs"
  by (induction rs) (auto simp: candidates_def split: option.split)

lemma candidates_resolve: "(r, u) \<in> set (candidates resolve rs) \<Longrightarrow> resolve r = Some u"
  by (induction rs) (auto simp: candidates_def split: option.splits)

lemma find_candidates:
  "find (\<lambda>y. snd y = u) (candidates resolve rs) =
     map_option (\<lambda>r. (r, u)) (find (\<lambda>r. resolve r = Some u) rs)"
  by (induction rs) (auto simp: candidates_def split: option.split)

lemma spec_normalize_urls:
  assumes "\<And>r u. url (build r u) = u"
  shows "map url (spec_normalize resolve build rs) = map snd (keep_first snd (candidates resolve rs))"
  by (simp add: spec_normalize_def candidates_def assms case_prod_unfold)

lemma spec_normalize_raws:
  assumes "\<And>r u. raw (build r u) = r"
  shows "map raw (spec_normalize resolve build rs) = map fst (keep_first snd (candidates resolve rs))"
  by (simp add: spec_normalize_def candidates_def assms case_prod_unfold)

lemma spec_normalize_distinct:
  assumes "\<And>r u. url (build r u) = u"
  shows "distinct (map url (spec_normalize resolve build rs))"
  by (simp add: spec_normalize_urls [OF assms] distinct_keep_first)

lemma spec_normalize_length: "length (spec_normalize resolve build rs) \<le> length rs"
proof -
  have "length (spec_normalize resolve build rs) \<le> length (candidates resolve rs)"
    using subseq_keep_first [of snd "candidates resolve rs"]
    by (simp add: spec_normalize_def candidates_def list_emb_length)
  also have "\<dots> = length (filter (\<lambda>r. resolve r \<noteq> None) rs)"
    using candidates_fst [of resolve rs] by (metis length_map)
  also have "\<dots> \<le> length rs" by simp
  finally show ?thesis .
qed

lemma spec_normalize_subseq:
  assumes "\<And>r u. raw (build r u) = r"
  shows "subseq (map raw (spec_normalize resolve build rs)) rs"
proof -
  have "subseq (map fst (keep_first snd (candidates resolve rs))) (map fst (candidates resolve rs))"
    by (rule subseq_map) (rule subseq_keep_first)
  moreover have "subseq (map fst (candidates resolve rs)) rs"
    by (simp add: candidates_fst)
  ultimately show ?thesis
    unfolding spec_normalize_raws [OF assms] using subseq_order.order_trans by blast
qed

lemma spec_normalize_all_urls:
  assumes "\<And>r u. url (build r u) = u"
  shows "set (map url (spec_normalize resolve build rs)) = set (List.map_filter resolve rs)"
proof -
  have "set (map snd (keep_first snd (candidates resolve rs))) = set (map snd (candidates resolve rs))"
    using keys_keep_first [of snd "candidates resolve rs"] by simp
  then show ?thesis by (simp add: spec_normalize_urls [OF assms] candidates_snd)
qed

lemma spec_normalize_first:
  assumes "\<And>r u. url (build r u) = u" and "\<And>r u. raw (build r u) = r"
  shows "map (\<lambda>i. find (\<lambda>r. resolve r = Some (url i)) rs) (spec_normalize resolve build rs) =
         map (\<lambda>i. Some (raw i)) (spec_normalize resolve build rs)"
proof -
  have "find (\<lambda>r'. resolve r' = Some u) rs = Some r"
    if "(r, u) \<in> set (keep_first snd (candidates resolve rs))" for r u
  proof -
    have "find (\<lambda>y. snd y = u) (candidates resolve rs) = Some (r, u)"
      using find_keep_first [OF that] by simp
    then show ?thesis by (auto simp: find_candidates)
  qed
  then show ?thesis
    by (auto simp: spec_normalize_def candidates_def assms)
qed

section \<open>Properties of the unwrapper\<close>

lemma parseItemsFromBlocks_loop_eq:
  "parseItemsFromBlocks_loop P out bs = out @ concat (map (block_records P) bs)"
  by (induction bs arbitrary: out)
    (auto simp: block_records_def parsePossiblyNestedJson_def split: option.split json.split)

lemma parseItemsFromBlocks_eq:
  "parseItemsFromBlocks P blocks = concat (map (block_records P) blocks)"
  by (simp add: parseItemsFromBlocks_def parseItemsFromBlocks_loop_eq)

lemma falsy_block_records: "\<not> truthy (Some b) \<Longrightarrow> block_records P b = []"
  by (cases b) (simp_all add: block_records_def)

lemma js_extractArrayFromBlocks_loop_eq:
  "js_extractArrayFromBlocks_loop P out bs = out @ concat (map (block_records P) bs)"
proof (induction bs arbitrary: out)
  case Nil
  then show ?case by simp
next
  case (Cons b bs)
  show ?case
  proof (cases "truthy (Some b)")
    case True
    then show ?thesis
      using Cons
      by (auto simp: block_records_def js_parseNestedJson_def split: option.split json.split)
  next
    case False
    then show ?thesis using Cons by (simp add: falsy_block_records)
  qed
qed

lemma js_extractArrayFromBlocks_eq:
  "js_extractArrayFromBlocks P blocks = concat (map (block_records P) blocks)"
  by (simp add: js_extractArrayFromBlocks_def js_extractArrayFromBlocks_loop_eq)

section \<open>The pipeline from blocks to items\<close>

lemma make_item_url: "url (make_item r u) = u"
  by (simp add: make_item_def)

lemma make_item_raw: "raw (make_item r u) = r"
  by (simp add: make_item_def)

lemma js_make_item_url: "url (js_make_item r u) = u"
  by (simp add: js_make_item_def)

lemma js_make_item_raw: "raw (js_make_item r u) = r"
  by (simp add: js_make_item_def)

text \<open>
  Claim C1, as amended. For every list of content blocks, the records extracted from all
  blocks are pooled in block order, and normalizing them returns exactly the extracted
  records that have a resolvable URL, one item for each URL. A record's resolvable URL is
  the value of the first present alias among \<^verbatim>\<open>link\<close>, \<^verbatim>\<open>url\<close>, \<^verbatim>\<open>href\<close>,
  \<^verbatim>\<open>sourceUrl\<close>, when that value is a non-empty text; the two files differ in what
  counts as present. In the TypeScript normalizer (\<^verbatim>\<open>??\<close>) an alias is present unless
  it is \<^verbatim>\<open>undefined\<close> or \<^verbatim>\<open>null\<close>; in the CommonJS normalizer (\<^verbatim>\<open>||\<close>) an alias is
  present when it is truthy. With its own test, each normalizer returns the items of the
  specification's normalizer: their URLs are pairwise different, their records are a
  subsequence of the extracted records, every resolvable URL occurs, the record of an item
  is the first extracted record with that URL, and there are at most as many items as
  extracted records.
\<close>

theorem normalize_extracted_records:
  fixes P :: json_parse and blocks :: "json list"
  defines "recs \<equiv> parseItemsFromBlocks P blocks"
  defines "its \<equiv> normalizeItems recs"
  defines "js_recs \<equiv> js_extractArrayFromBlocks P blocks"
  defines "js_its \<equiv> js_normalizeItems js_recs"
  shows "recs = concat (map (block_records P) blocks)
    \<and> its = spec_normalize (resolvable_url not_nullish) make_item recs
    \<and> distinct (map url its)
    \<and> subseq (map raw its) recs
    \<and> set (map url its) = set (List.map_filter (resolvable_url not_nullish) recs)
    \<and> map (\<lambda>i. find (\<lambda>r. resolvable_url not_nullish r = Some (url i)) recs) its
        = map (\<lambda>i. Some (raw i)) its
    \<and> length its \<le> length recs
    \<and> js_recs = concat (map (block_records P) blocks)
    \<and> js_its = spec_normalize (resolvable_url truthy) js_make_item js_recs
    \<and> distinct (map url js_its)
    \<and> subseq (map raw js_its) js_recs
    \<and> set (map url js_its) = set (List.map_filter (resolvable_url truthy) js_recs)
    \<and> map (\<lambda>i. find (\<lambda>r. resolvable_url truthy r = Some (url i)) js_recs) js_its
        = map (\<lambda>i. Some (raw i)) js_its
    \<and> length js_its \<le> length js_recs"
proof -
  have ts: "its = spec_normalize (resolvable_url not_nullish) make_item recs"
    by (simp add: its_def normalizeItems_spec)
  have js: "js_its = spec_normalize (resolvable_url truthy) js_make_item js_recs"
    by (simp add: js_its_def js_normalizeItems_spec)
  have "recs = concat (map (block_records P) blocks)"
    by (simp add: recs_def parseItemsFromBlocks_eq)
  moreover have "distinct (map url its)"
    unfolding ts by (rule spec_normalize_distinct) (rule make_item_url)
  moreover have "subseq (map raw its) recs"
    unfolding ts by (rule spec_normalize_subseq) (rule make_item_raw)
  moreover have "set (map url its) = set (List.map_filter (resolvable_url not_nullish) recs)"
    unfolding ts by (rule spec_normalize_all_urls) (rule make_item_url)
  moreover have "map (\<lambda>i. find (\<lambda>r. resolvable_url not_nullish r = Some (url i)) recs) its
        = map (\<lambda>i. Some (raw i)) its"
    unfolding ts by (rule spec_normalize_first) (rule make_item_url, rule make_item_raw)
  moreover have "length its \<le> length recs"
    unfolding ts by (rule spec_normalize_length)
  moreover have "js_recs = concat (map (block_records P) blocks)"
    by (simp add: js_recs_def js_extractArrayFromBlocks_eq)
  moreover have "distinct (map url js_its)"
    unfolding js by (rule spec_normalize_distinct) (rule js_make_item_url)
  moreover have "subseq (map raw js_its) js_recs"
    unfolding js by (rule spec_normalize_subseq) (rule js_make_item_raw)
  moreover have "set (map url js_its) = set (List.map_filter (resolvable_url truthy) js_recs)"
    unfolding js by (rule spec_normalize_all_urls) (rule js_make_item_url)
  moreover have "map (\<lambda>i. find (\<lambda>r. resolvable_url truthy r = Some (url i)) js_recs) js_its
        = map (\<lambda>i. Some (raw i)) js_its"
    unfolding js by (rule spec_normalize_first) (rule js_make_item_url, rule js_make_item_raw)
  moreover have "length js_its \<le> length js_recs"
    unfolding js by (rule spec_normalize_length)
  ultimately show ?thesis using ts js by blast
qed

text \<open>
  Where the claim as stated fails: it has one notion of a resolvable URL for both
  normalizers. Take one block with one record, whose \<^verbatim>\<open>link\<close> is the empty text and
  whose \<^verbatim>\<open>url\<close> is a URL. If an empty text does not count as a present alias, the record
  has a resolvable URL, and the TypeScript normalizer drops it. If it counts, the record
  has none, and the CommonJS normalizer keeps it.
\<close>

lemma parse_empty_link_text: "parse_json empty_link_text = Some (JArr [empty_link_record])"
  by code_simp

lemma empty_link_extracted:
  "parseItemsFromBlocks parse_json [text_block empty_link_text] = [empty_link_record]
   \<and> js_extractArrayFromBlocks parse_json [text_block empty_link_text] = [empty_link_record]"
  by (simp add: parseItemsFromBlocks_def js_extractArrayFromBlocks_def text_block_def
      parsePossiblyNestedJson_def js_parseNestedJson_def numeral_2_eq_2 parse_empty_link_text
      parsed_records_def)

theorem empty_link_splits_the_normalizers:
  "resolvable_url truthy empty_link_record = Some ''http://u1''
   \<and> normalizeItems (parseItemsFromBlocks parse_json [text_block empty_link_text]) = []
   \<and> resolvable_url not_nullish empty_link_record = None
   \<and> map url (js_normalizeItems (js_extractArrayFromBlocks parse_json [text_block empty_link_text]))
       = [''http://u1'']"
  by (simp add: empty_link_extracted)
    (simp add: empty_link_record_def resolvable_url_def first_present_def not_nullish_def
      nonempty_text_def normalizeItems_def normalize_record_def item_url_def coalesce_def
      checked_url_def js_normalizeItems_def js_normalize_record_def js_item_link_def js_or_def
      js_make_item_def)

section \<open>Properties of the search invoker\<close>

subsection \<open>Credential gating\<close>

lemma trim_empty_iff: "trim k = [] \<longleftrightarrow> blank k"
proof
  assume "trim k = []"
  then have a: "\<forall>c \<in> set (rev (dropWhile js_whitespace k)). js_whitespace c"
    by (simp add: trim_def)
  show "blank k"
  proof (cases "dropWhile js_whitespace k")
    case Nil
    then show ?thesis by (simp add: blank_def list_all_iff)
  next
    case (Cons x xs)
    then have "\<not> js_whitespace x" using hd_dropWhile [of js_whitespace k] by auto
    with a Cons show ?thesis by simp
  qed
next
  assume "blank k"
  then have "\<forall>c \<in> set k. js_whitespace c" by (simp add: blank_def list_all_iff)
  then show "trim k = []" by (auto simp: trim_def dest: set_dropWhileD)
qed

lemma blank_Nil: "blank []"
  by (simp add: blank_def)

text \<open>
  Claim C4, as amended. In the TypeScript function the resolved credential is
  \<^verbatim>\<open>options.apiKey ?? process.env.BIGMODEL_API_KEY\<close>; when both are absent, or when
  the resolved credential is blank (empty or white space only), the call throws the error
  with code \<open>MISSING_API_KEY\<close> and the module state is unchanged: no transport was
  built, no \<^verbatim>\<open>connect\<close> and no \<^verbatim>\<open>callTool\<close> was made, the cache is as before. In the
  CommonJS function the resolved credential is
  \<^verbatim>\<open>options.apiKey || process.env.BIGMODEL_API_KEY\<close>; when both are absent, or when it
  is empty, the call throws a plain \<^verbatim>\<open>Error\<close> with the same message and the module
  state is unchanged.
\<close>

theorem missing_credential_fails_before_network:
  "((apiKey options = None \<and> env_BIGMODEL_API_KEY W = None)
      \<or> (\<exists>k. credential W options = Some k \<and> blank k)
    \<longrightarrow> bigmodelWebSearchPrime P W s params options =
          (Some (Inl (MCPError \<lparr> message =
             ''Missing BigModel API key: pass options.apiKey or set BIGMODEL_API_KEY'',
             code = MISSING_API_KEY, details = NoDetails \<rparr>)), s))
   \<and> ((apiKey options = None \<and> env_BIGMODEL_API_KEY W = None)
      \<or> js_credential W options = Some []
    \<longrightarrow> js_webSearchPrime P S W s q options =
          (Some (Inl (PlainError
             ''Missing BigModel API key: pass options.apiKey or set BIGMODEL_API_KEY'')), s))"
  by (auto simp: bigmodelWebSearchPrime_def credential_def trim_empty_iff missing_api_key_def
      js_webSearchPrime_def js_credential_def js_missing_api_key_def split: option.splits)

text \<open>
  The theorem at work: no credential at all, and a TypeScript call with a credential of
  two spaces.
\<close>

theorem missing_credential_fails_before_network_witness:
  "apiKey no_options = None \<and> env_BIGMODEL_API_KEY sample_world = None
   \<and> bigmodelWebSearchPrime parse_json sample_world initial_state [] no_options =
        (Some (Inl (MCPError \<lparr> message =
           ''Missing BigModel API key: pass options.apiKey or set BIGMODEL_API_KEY'',
           code = MISSING_API_KEY, details = NoDetails \<rparr>)), initial_state)
   \<and> js_webSearchPrime parse_json stringify sample_world initial_state (Query ''q'') no_options =
        (Some (Inl (PlainError
           ''Missing BigModel API key: pass options.apiKey or set BIGMODEL_API_KEY'')), initial_state)
   \<and> credential sample_world (no_options \<lparr> apiKey := Some ''  '' \<rparr>) = Some ''  ''
   \<and> blank ''  ''
   \<and> bigmodelWebSearchPrime parse_json sample_world initial_state []
          (no_options \<lparr> apiKey := Some ''  '' \<rparr>) =
        (Some (Inl (MCPError \<lparr> message =
           ''Missing BigModel API key: pass options.apiKey or set BIGMODEL_API_KEY'',
           code = MISSING_API_KEY, details = NoDetails \<rparr>)), initial_state)"
proof -
  have absent: "apiKey no_options = None \<and> env_BIGMODEL_API_KEY sample_world = None"
    by (simp add: no_options_def sample_world_def)
  have spaces: "credential sample_world (no_options \<lparr> apiKey := Some ''  '' \<rparr>) = Some ''  ''
      \<and> blank ''  ''"
    by (simp add: credential_def blank_def js_whitespace_def)
  show ?thesis
    using absent spaces
      missing_credential_fails_before_network
        [of no_options sample_world parse_json initial_state "[]" stringify "Query ''q''"]
      missing_credential_fails_before_network
        [of "no_options \<lparr> apiKey := Some ''  '' \<rparr>" sample_world parse_json initial_state "[]"]
    by blast
qed

text \<open>
  Where the claim as stated fails: the CommonJS function tests the credential with
  \<^verbatim>\<open>if (!apiKey)\<close> only. A credential of two spaces is blank, yet the call builds a
  transport with the header \<^verbatim>\<open>Bearer\<close> and two spaces, connects, invokes the tool and
  returns.
\<close>

theorem js_whitespace_credential_reaches_network:
  "js_credential sample_world (no_options \<lparr> apiKey := Some ''  '' \<rparr>) = Some ''  ''
   \<and> blank ''  ''
   \<and> js_webSearchPrime (\<lambda>t. None) (\<lambda>v. []) sample_world initial_state (Query ''q'')
        (no_options \<lparr> apiKey := Some ''  '' \<rparr>)
      = (Some (Inr \<lparr> items = [], rawBlocks = [], meta = None \<rparr>),
         \<lparr> clientCache = [DEFAULT_ENDPOINT @ ''::'' @ hashKey ''  '' \<mapsto>
              Inr \<lparr> client_id = 0, client_endpoint = DEFAULT_ENDPOINT,
                    client_headers = [(''Authorization'', ''Bearer   '')] \<rparr>],
           trace = [NewTransport DEFAULT_ENDPOINT [(''Authorization'', ''Bearer   '')], Connect 0,
                    CallTool 0 ''webSearchPrime''
                      [(''search_query'', Some (JStr ''q'')), (''count'', Some (JNum 10)),
                       (''content_size'', Some (JStr ''medium'')), (''location'', Some (JStr ''cn''))]],
           clients_created = 1 \<rparr>)"
  by (simp add: js_webSearchPrime_def js_credential_def no_options_def sample_world_def
      initial_state_def js_acquire_def js_clientPromise_def js_cacheKey_def js_endpoint_def Let_def
      js_finish_def js_extractArrayFromBlocks_def js_normalizeItems_def js_invoke_tool_def
      blank_def js_whitespace_def)

subsection \<open>From the credential to the tool result\<close>

lemma bigmodelWebSearchPrime_proceeds:
  assumes "proceeds_to_call W s options"
  obtains k c s1 where "credential W options = Some k" and "\<not> blank k"
    and "acquire W s k options = (Inr c, s1)"
    and "validateToolAvailability options = Some True \<Longrightarrow> validate_tool W (ts_endpoint options) = None"
    and "bigmodelWebSearchPrime P W s params options = invoke_tool P W s1 params options c"
proof -
  from assms obtain k where k: "credential W options = Some k" "\<not> blank k"
    by (auto simp: proceeds_to_call_def split: option.splits if_splits)
  with assms obtain c where c: "fst (acquire W s k options) = Inr c"
    and v: "validateToolAvailability options = Some True \<Longrightarrow> validate_tool W (ts_endpoint options) = None"
    by (auto simp: proceeds_to_call_def split: sum.splits if_splits)
  obtain s1 where s1: "acquire W s k options = (Inr c, s1)"
    using c by (cases "acquire W s k options") auto
  have ne: "k \<noteq> []" "trim k \<noteq> []"
    using k blank_Nil trim_empty_iff by auto
  have "bigmodelWebSearchPrime P W s params options = invoke_tool P W s1 params options c"
    by (simp add: bigmodelWebSearchPrime_def k ne s1)
  with k s1 v show ?thesis using that by blast
qed

lemma await_timeout_inactive:
  "timeoutMs options = None \<or> (\<exists>ms. timeoutMs options = Some ms \<and> ms \<le> 0) \<Longrightarrow>
   withSoftTimeout tie p (timeoutMs options) = p"
  by (cases p) auto

lemma await_in_time:
  assumes "answers_in_time W options" and "callTool_result W = Inr result"
  shows "await (withSoftTimeout (timer_first_on_tie W) (callPromise W) (timeoutMs options))
         = Some (Inr result)"
proof -
  from assms(1) obtain t where t: "callTool_settles W = Some t"
    by (auto simp: answers_in_time_def split: option.splits)
  show ?thesis
  proof (cases "timeoutMs options")
    case None
    then show ?thesis using t assms(2) by (simp add: callPromise_def)
  next
    case (Some ms)
    then show ?thesis
      using t assms by (auto simp: callPromise_def answers_in_time_def split: if_splits)
  qed
qed

lemma finish_not_array:
  assumes "\<not> truthy (js_get ''isError'' result)" and "\<not> isArray (js_get ''content'' result)"
  shows "\<exists>out. finish P W ep params reused result = Inr out \<and> items out = [] \<and> rawBlocks out = []"
proof -
  have "(case js_get ''content'' result of Some (JArr bs) \<Rightarrow> bs | _ \<Rightarrow> []) = []"
    using assms(2) by (auto split: option.split json.split)
  then show ?thesis
    using assms(1)
    by (simp add: finish_def Let_def parseItemsFromBlocks_def normalizeItems_def)
qed

lemma js_finish_not_array:
  assumes "\<not> truthy (js_get ''isError'' result)" and "\<not> isArray (js_get ''content'' result)"
  shows "\<exists>out. js_finish P S result = Inr out \<and> items out = [] \<and> rawBlocks out = []"
proof -
  have "(case js_get ''content'' result of Some (JArr bs) \<Rightarrow> bs | _ \<Rightarrow> []) = []"
    using assms(2) by (auto split: option.split json.split)
  then show ?thesis
    using assms(1)
    by (simp add: js_finish_def Let_def js_extractArrayFromBlocks_def js_normalizeItems_def)
qed

lemma invoke_tool_answer:
  assumes "validateToolAvailability options = Some True \<Longrightarrow> validate_tool W (ts_endpoint options) = None"
    and "answers_in_time W options" and "callTool_result W = Inr result"
  shows "fst (invoke_tool P W s1 params options c) =
     Some (finish P W (ts_endpoint options) params (reuseConnection options \<noteq> Some False) result)"
  using assms(1) await_in_time [OF assms(2,3)]
  by (simp add: invoke_tool_def Let_def)

text \<open>
  Claim C10. When the call gets as far as \<^verbatim>\<open>callTool\<close>, the answer arrives (before
  the timer fires, where a timeout is set), the answer does not signal an application-level error
  (\<^verbatim>\<open>isError\<close> is falsy) and its \<^verbatim>\<open>content\<close> is absent or not an array, then the
  call returns, with no raw blocks and no items. This holds for the TypeScript function
  and for the CommonJS function.
\<close>

theorem non_array_content_gives_empty_result:
  "(proceeds_to_call W s options \<and> answers_in_time W options \<and> callTool_result W = Inr result
      \<and> \<not> truthy (js_get ''isError'' result) \<and> \<not> isArray (js_get ''content'' result)
    \<longrightarrow> (\<exists>out. fst (bigmodelWebSearchPrime P W s params options) = Some (Inr out)
           \<and> items out = [] \<and> rawBlocks out = []))
   \<and> (js_proceeds_to_call W s options \<and> callTool_settles W \<noteq> None \<and> callTool_result W = Inr result
      \<and> \<not> truthy (js_get ''isError'' result) \<and> \<not> isArray (js_get ''content'' result)
    \<longrightarrow> (\<exists>out. fst (js_webSearchPrime P S W s q options) = Some (Inr out)
           \<and> items out = [] \<and> rawBlocks out = []))"
proof (intro conjI impI)
  assume a: "proceeds_to_call W s options \<and> answers_in_time W options \<and> callTool_result W = Inr result
      \<and> \<not> truthy (js_get ''isError'' result) \<and> \<not> isArray (js_get ''content'' result)"
  then obtain k c s1 where
    v: "validateToolAvailability options = Some True \<Longrightarrow> validate_tool W (ts_endpoint options) = None"
    and run: "bigmodelWebSearchPrime P W s params options = invoke_tool P W s1 params options c"
    using bigmodelWebSearchPrime_proceeds [of W s options P params] by metis
  have "fst (bigmodelWebSearchPrime P W s params options) =
     Some (finish P W (ts_endpoint options) params (reuseConnection options \<noteq> Some False) result)"
    unfolding run using a by (intro invoke_tool_answer v) auto
  then show "\<exists>out. fst (bigmodelWebSearchPrime P W s params options) = Some (Inr out)
           \<and> items out = [] \<and> rawBlocks out = []"
    using finish_not_array a by simp
next
  assume a: "js_proceeds_to_call W s options \<and> callTool_settles W \<noteq> None \<and> callTool_result W = Inr result
      \<and> \<not> truthy (js_get ''isError'' result) \<and> \<not> isArray (js_get ''content'' result)"
  then obtain k where k: "js_credential W options = Some k" "k \<noteq> []"
    by (auto simp: js_proceeds_to_call_def split: option.splits if_splits)
  with a obtain c s1 where c: "js_acquire W s k options = (Inr c, s1)"
    by (cases "js_acquire W s k options") (auto simp: js_proceeds_to_call_def split: sum.splits)
  from a obtain t where t: "callTool_settles W = Some t" by auto
  have "fst (js_webSearchPrime P S W s q options) = Some (js_finish P S result)"
    using a by (simp add: js_webSearchPrime_def k c js_invoke_tool_def t Let_def)
  then show "\<exists>out. fst (js_webSearchPrime P S W s q options) = Some (Inr out)
           \<and> items out = [] \<and> rawBlocks out = []"
    using js_finish_not_array a by simp
qed


text \<open>
  The theorem at work: a tool result whose \<^verbatim>\<open>content\<close> is a text, not an array.
\<close>

theorem non_array_content_gives_empty_result_witness:
  "proceeds_to_call (sample_world \<lparr> callTool_result := Inr (JObj [(''content'', JStr ''none'')]) \<rparr>)
      initial_state (no_options \<lparr> apiKey := Some ''key'' \<rparr>)
   \<and> answers_in_time (sample_world \<lparr> callTool_result := Inr (JObj [(''content'', JStr ''none'')]) \<rparr>)
      (no_options \<lparr> apiKey := Some ''key'' \<rparr>)
   \<and> \<not> truthy (js_get ''isError'' (JObj [(''content'', JStr ''none'')]))
   \<and> \<not> isArray (js_get ''content'' (JObj [(''content'', JStr ''none'')]))
   \<and> (\<exists>out. fst (bigmodelWebSearchPrime parse_json
          (sample_world \<lparr> callTool_result := Inr (JObj [(''content'', JStr ''none'')]) \<rparr>)
          initial_state [] (no_options \<lparr> apiKey := Some ''key'' \<rparr>)) = Some (Inr out)
        \<and> items out = [] \<and> rawBlocks out = [])
   \<and> js_proceeds_to_call (sample_world \<lparr> callTool_result := Inr (JObj [(''content'', JStr ''none'')]) \<rparr>)
      initial_state (no_options \<lparr> apiKey := Some ''key'' \<rparr>)
   \<and> (\<exists>out. fst (js_webSearchPrime parse_json stringify
          (sample_world \<lparr> callTool_result := Inr (JObj [(''content'', JStr ''none'')]) \<rparr>)
          initial_state (Query ''q'') (no_options \<lparr> apiKey := Some ''key'' \<rparr>)) = Some (Inr out)
        \<and> items out = [] \<and> rawBlocks out = [])"
proof -
  define W where "W = sample_world \<lparr> callTool_result := Inr (JObj [(''content'', JStr ''none'')]) \<rparr>"
  define opts where "opts = no_options \<lparr> apiKey := Some ''key'' \<rparr>"
  have ts: "proceeds_to_call W initial_state opts"
    by (simp add: proceeds_to_call_def W_def opts_def credential_def no_options_def sample_world_def
        initial_state_def blank_def js_whitespace_def acquire_def getOrCreateClient_def
        createClientPromise_def Let_def)
  have js: "js_proceeds_to_call W initial_state opts"
    by (simp add: js_proceeds_to_call_def W_def opts_def js_credential_def no_options_def
        sample_world_def initial_state_def js_acquire_def js_clientPromise_def Let_def)
  have time: "answers_in_time W opts" "callTool_settles W \<noteq> None"
    by (simp_all add: answers_in_time_def W_def opts_def no_options_def sample_world_def)
  have res: "callTool_result W = Inr (JObj [(''content'', JStr ''none'')])"
    by (simp add: W_def)
  have shape: "\<not> truthy (js_get ''isError'' (JObj [(''content'', JStr ''none'')]))"
    "\<not> isArray (js_get ''content'' (JObj [(''content'', JStr ''none'')]))"
    by simp_all
  show ?thesis
    using ts js time res shape
      non_array_content_gives_empty_result
        [of W initial_state opts "JObj [(''content'', JStr ''none'')]" parse_json "[]" stringify
          "Query ''q''"]
    unfolding W_def opts_def by blast
qed

subsection \<open>The returned object\<close>

lemma finish_meta:
  "finish P W ep params reused result = Inr out \<Longrightarrow>
     meta out = Some \<lparr> meta_endpoint = ep, toolName = ''webSearchPrime'',
        tookMs = int (now_end W) - int (now_start W), requestedCount = param_get ''count'' params,
        returnedCount = length (items out), reusedConnection = reused \<rparr>"
  by (auto simp: finish_def Let_def TOOL_NAME_def split: if_splits)

lemma invoke_tool_success:
  "fst (invoke_tool P W s1 params options c) = Some (Inr out) \<Longrightarrow>
     \<exists>result. finish P W (ts_endpoint options) params (reuseConnection options \<noteq> Some False) result
       = Inr out"
  by (auto simp: invoke_tool_def Let_def split: option.splits sum.splits if_splits)

lemma bigmodelWebSearchPrime_success:
  "fst (bigmodelWebSearchPrime P W s params options) = Some (Inr out) \<Longrightarrow>
     \<exists>result. finish P W (ts_endpoint options) params (reuseConnection options \<noteq> Some False) result
       = Inr out"
  by (auto simp: bigmodelWebSearchPrime_def missing_api_key_def
      split: option.splits sum.splits if_splits prod.splits dest: invoke_tool_success)

lemma js_finish_meta: "js_finish P S result = Inr out \<Longrightarrow> meta out = None"
  by (auto simp: js_finish_def Let_def split: if_splits)

lemma js_webSearchPrime_success:
  "fst (js_webSearchPrime P S W s q options) = Some (Inr out) \<Longrightarrow>
     \<exists>result. js_finish P S result = Inr out"
  by (auto simp: js_webSearchPrime_def js_invoke_tool_def Let_def js_missing_api_key_def
      split: option.splits sum.splits if_splits prod.splits)

text \<open>
  The end-to-end example of the specification: the parameters
  \<^verbatim>\<open>{search_query: "test", count: 5}\<close>, one text block holding the JSON text of an
  array of one record, and a call that leaves \<^verbatim>\<open>reuseConnection\<close> at its default.
\<close>

lemma parse_example_text: "parse_json example_text = Some (JArr [example_record])"
  by code_simp

lemma parse_example_double_text:
  "parse_json (stringify (JStr example_text)) = Some (JStr example_text)"
  by code_simp

lemma example_items:
  "normalizeItems (parseItemsFromBlocks parse_json [text_block example_text]) =
     [\<lparr> title = Some (JStr ''T''), url = ''http://x'', summary = Some (JStr ''S''),
        icon = None, siteName = None, media = None, publishedAt = None, refer = None,
        raw = example_record \<rparr>]"
  by (simp add: parseItemsFromBlocks_def text_block_def parsePossiblyNestedJson_def numeral_2_eq_2
      parse_example_text parsed_records_def normalizeItems_def)
    (simp add: example_record_def normalize_record_def item_url_def coalesce_def checked_url_def
      make_item_def item_title_def)

lemma end_to_end_example:
  "fst (bigmodelWebSearchPrime parse_json example_world initial_state example_params example_options)
     = Some (Inr example_output)"
  by (simp add: bigmodelWebSearchPrime_def credential_def no_options_def sample_world_def
      initial_state_def trim_def js_whitespace_def acquire_def getOrCreateClient_def
      createClientPromise_def Let_def invoke_tool_def callPromise_def finish_def
      example_response_def example_items ts_endpoint_def TOOL_NAME_def example_world_def
      example_params_def example_options_def example_output_def param_get_def)

lemma js_plain_example:
  "fst (js_webSearchPrime parse_json stringify sample_world initial_state (Query ''q'')
          example_options)
     = Some (Inr \<lparr> items = [], rawBlocks = [], meta = None \<rparr>)"
  by (simp add: js_webSearchPrime_def js_credential_def no_options_def sample_world_def
      initial_state_def js_acquire_def js_clientPromise_def Let_def js_finish_def
      js_extractArrayFromBlocks_def js_normalizeItems_def js_invoke_tool_def example_options_def)

text \<open>
  Claim C5, as amended. Every call of the TypeScript function that returns, returns an
  object \<^verbatim>\<open>{ items, rawBlocks, meta }\<close> whose \<^verbatim>\<open>meta\<close> holds the endpoint used, the
  tool name \<^verbatim>\<open>webSearchPrime\<close>, the difference of the two clock readings,
  \<^verbatim>\<open>params.count\<close> as the requested count, the number of items as the returned count,
  and \<^verbatim>\<open>reusedConnection\<close>, which is true exactly when \<^verbatim>\<open>options.reuseConnection\<close> is
  not \<^verbatim>\<open>false\<close>: it tells that reuse was enabled, not that a cached session was found.
  Every call of the CommonJS function that returns, returns \<^verbatim>\<open>{ items, rawBlocks }\<close>,
  with no \<^verbatim>\<open>meta\<close>.
\<close>

theorem returned_object_meta:
  "(fst (bigmodelWebSearchPrime P W s params options) = Some (Inr out) \<longrightarrow>
      meta out = Some \<lparr> meta_endpoint = ts_endpoint options, toolName = ''webSearchPrime'',
        tookMs = int (now_end W) - int (now_start W), requestedCount = param_get ''count'' params,
        returnedCount = length (items out),
        reusedConnection = (reuseConnection options \<noteq> Some False) \<rparr>)
  \<and> (fst (js_webSearchPrime P S W s q options) = Some (Inr js_out) \<longrightarrow> meta js_out = None)"
proof (intro conjI impI)
  assume "fst (bigmodelWebSearchPrime P W s params options) = Some (Inr out)"
  then obtain result where
    "finish P W (ts_endpoint options) params (reuseConnection options \<noteq> Some False) result = Inr out"
    using bigmodelWebSearchPrime_success by blast
  then show "meta out = Some \<lparr> meta_endpoint = ts_endpoint options, toolName = ''webSearchPrime'',
        tookMs = int (now_end W) - int (now_start W), requestedCount = param_get ''count'' params,
        returnedCount = length (items out),
        reusedConnection = (reuseConnection options \<noteq> Some False) \<rparr>"
    by (rule finish_meta)
next
  assume "fst (js_webSearchPrime P S W s q options) = Some (Inr js_out)"
  then obtain result where "js_finish P S result = Inr js_out"
    using js_webSearchPrime_success by blast
  then show "meta js_out = None" by (rule js_finish_meta)
qed

text \<open>The theorem at work, on the end-to-end example and on a CommonJS call.\<close>

theorem returned_object_meta_witness:
  "fst (bigmodelWebSearchPrime parse_json example_world initial_state example_params example_options)
     = Some (Inr example_output)
   \<and> meta example_output =
       Some \<lparr> meta_endpoint = ts_endpoint example_options, toolName = ''webSearchPrime'',
         tookMs = int (now_end example_world) - int (now_start example_world),
         requestedCount = param_get ''count'' example_params,
         returnedCount = length (items example_output),
         reusedConnection = (reuseConnection example_options \<noteq> Some False) \<rparr>
   \<and> fst (js_webSearchPrime parse_json stringify sample_world initial_state (Query ''q'')
          example_options)
     = Some (Inr \<lparr> items = [], rawBlocks = [], meta = None \<rparr>)
   \<and> meta \<lparr> items = [], rawBlocks = [], meta = None \<rparr> = None"
proof -
  have ts: "meta example_output =
       Some \<lparr> meta_endpoint = ts_endpoint example_options, toolName = ''webSearchPrime'',
         tookMs = int (now_end example_world) - int (now_start example_world),
         requestedCount = param_get ''count'' example_params,
         returnedCount = length (items example_output),
         reusedConnection = (reuseConnection example_options \<noteq> Some False) \<rparr>"
    using returned_object_meta
      [of parse_json example_world initial_state example_params example_options example_output]
      end_to_end_example
    by blast
  have js: "meta \<lparr> items = [], rawBlocks = [], meta = None \<rparr> = None"
    using returned_object_meta
      [of parse_json sample_world initial_state _ example_options _ stringify "Query ''q''"
        "\<lparr> items = [], rawBlocks = [], meta = None \<rparr>"]
      js_plain_example
    by blast
  show ?thesis using ts js end_to_end_example js_plain_example by blast
qed

text \<open>
  Where the claim as stated fails. The CommonJS function returns an object without
  \<^verbatim>\<open>meta\<close>. And in the TypeScript function \<^verbatim>\<open>reusedConnection\<close> is true on the very
  first call, which finds the cache empty and establishes its session (a transport and a
  \<^verbatim>\<open>connect\<close> are in the trace).
\<close>

theorem returned_object_without_meta:
  "fst (js_webSearchPrime (\<lambda>t. None) (\<lambda>v. []) sample_world initial_state (Query ''q'')
          (no_options \<lparr> apiKey := Some ''key'' \<rparr>))
     = Some (Inr \<lparr> items = [], rawBlocks = [], meta = None \<rparr>)
   \<and> clientCache initial_state = Map.empty
   \<and> fst (bigmodelWebSearchPrime (\<lambda>t. None) sample_world initial_state []
          (no_options \<lparr> apiKey := Some ''key'' \<rparr>))
     = Some (Inr \<lparr> items = [], rawBlocks = [],
          meta = Some \<lparr> meta_endpoint = DEFAULT_ENDPOINT, toolName = ''webSearchPrime'', tookMs = 0,
                   requestedCount = None, returnedCount = 0, reusedConnection = True \<rparr> \<rparr>)
   \<and> trace (snd (bigmodelWebSearchPrime (\<lambda>t. None) sample_world initial_state []
          (no_options \<lparr> apiKey := Some ''key'' \<rparr>)))
     = [NewTransport DEFAULT_ENDPOINT [(''Authorization'', ''Bearer key'')], Connect 0,
        CallTool 0 ''webSearchPrime'' []]"
  by (simp add: js_webSearchPrime_def js_credential_def no_options_def sample_world_def
      initial_state_def js_acquire_def js_clientPromise_def Let_def js_finish_def
      js_extractArrayFromBlocks_def js_normalizeItems_def js_invoke_tool_def
      bigmodelWebSearchPrime_def credential_def trim_def js_whitespace_def acquire_def
      getOrCreateClient_def createClientPromise_def invoke_tool_def callPromise_def finish_def
      ts_endpoint_def TOOL_NAME_def parseItemsFromBlocks_def normalizeItems_def mergedHeaders_def
      param_get_def)

subsection \<open>The soft timeout\<close>

lemma timer_delay_le: "0 < ms \<Longrightarrow> timer_delay ms \<le> nat ms"
  by (auto simp: timer_delay_def)

lemma timer_first_exceeded:
  assumes "0 < ms" and "wait_exceeds_deadline W (nat ms)"
  shows "timer_first tie (timer_delay ms) (callTool_settles W)"
proof (cases "callTool_settles W")
  case None
  then show ?thesis by simp
next
  case (Some t)
  with assms(2) have "nat ms < t" by (simp add: wait_exceeds_deadline_def)
  with timer_delay_le [OF assms(1)] have "timer_delay ms < t" by simp
  with Some show ?thesis by simp
qed

lemma await_timeout:
  assumes "0 < ms" and "wait_exceeds_deadline W (nat ms)"
  shows "await (withSoftTimeout (timer_first_on_tie W) (callPromise W) (Some ms))
         = Some (Inl (timeout_error (nat ms)))"
  using assms(1) timer_first_exceeded [OF assms]
  by (simp add: callPromise_def)

lemma invoke_tool_timeout:
  assumes "validateToolAvailability options = Some True \<Longrightarrow> validate_tool W (ts_endpoint options) = None"
    and "timeoutMs options = Some ms" and "0 < ms" and "wait_exceeds_deadline W (nat ms)"
  shows "fst (invoke_tool P W s1 params options c) = Some (Inl (timeout_error (nat ms)))"
  using assms(1) await_timeout [OF assms(3,4)]
  by (simp add: invoke_tool_def Let_def assms(2))

text \<open>
  Claim C9, as amended. When a call of the TypeScript function with a positive
  \<^verbatim>\<open>timeoutMs\<close> gets as far as \<^verbatim>\<open>callTool\<close> and the local wait exceeds the deadline,
  the call rejects with the module's error whose message is
  \<^verbatim>\<open>MCP call soft-timeout after <timeoutMs>ms\<close>, whose code is
  \<open>TRANSPORT_OR_CONNECT_ERROR\<close> and which carries no details. The module has four
  error codes and none of its own for a timeout: the code is the one that a failed
  \<^verbatim>\<open>connect\<close>, \<^verbatim>\<open>listTools\<close> or \<^verbatim>\<open>callTool\<close> carries, and the timeout differs from
  those by its message and the absent details only.
\<close>

theorem soft_timeout_rejects:
  assumes "proceeds_to_call W s options" and "timeoutMs options = Some ms" and "0 < ms"
    and "wait_exceeds_deadline W (nat ms)"
  shows "fst (bigmodelWebSearchPrime P W s params options) =
     Some (Inl (MCPError \<lparr> message = ''MCP call soft-timeout after '' @ show_nat (nat ms) @ ''ms'',
                            code = TRANSPORT_OR_CONNECT_ERROR, details = NoDetails \<rparr>))"
proof -
  obtain k c s1 where
    v: "validateToolAvailability options = Some True \<Longrightarrow> validate_tool W (ts_endpoint options) = None"
    and run: "bigmodelWebSearchPrime P W s params options = invoke_tool P W s1 params options c"
    using bigmodelWebSearchPrime_proceeds [OF assms(1), of P params] by metis
  show ?thesis
    unfolding run using invoke_tool_timeout [OF v assms(2,3,4)] by (simp add: timeout_error_def)
qed

text \<open>
  The theorem at work: a deadline of 100 milliseconds and a tool that answers after 500.
\<close>

theorem soft_timeout_rejects_witness:
  "proceeds_to_call (sample_world \<lparr> callTool_settles := Some 500 \<rparr>) initial_state
      (example_options \<lparr> timeoutMs := Some 100 \<rparr>)
   \<and> timeoutMs (example_options \<lparr> timeoutMs := Some 100 \<rparr>) = Some 100
   \<and> (0 :: int) < 100
   \<and> wait_exceeds_deadline (sample_world \<lparr> callTool_settles := Some 500 \<rparr>) (nat 100)
   \<and> fst (bigmodelWebSearchPrime parse_json (sample_world \<lparr> callTool_settles := Some 500 \<rparr>)
          initial_state example_params (example_options \<lparr> timeoutMs := Some 100 \<rparr>)) =
       Some (Inl (MCPError \<lparr> message = ''MCP call soft-timeout after 100ms'',
                              code = TRANSPORT_OR_CONNECT_ERROR, details = NoDetails \<rparr>))"
proof -
  have p: "proceeds_to_call (sample_world \<lparr> callTool_settles := Some 500 \<rparr>) initial_state
      (example_options \<lparr> timeoutMs := Some 100 \<rparr>)"
    by (simp add: proceeds_to_call_def example_options_def credential_def no_options_def
        sample_world_def initial_state_def blank_def js_whitespace_def acquire_def
        getOrCreateClient_def createClientPromise_def Let_def)
  have t: "timeoutMs (example_options \<lparr> timeoutMs := Some 100 \<rparr>) = Some 100" by simp
  have w: "wait_exceeds_deadline (sample_world \<lparr> callTool_settles := Some 500 \<rparr>) (nat 100)"
    by (simp add: wait_exceeds_deadline_def)
  have digits: "show_nat 100 = ''100''" by code_simp
  show ?thesis
    using p t w soft_timeout_rejects [OF p t _ w, of parse_json example_params]
    by (simp add: digits)
qed

text \<open>
  Where the claim as stated fails: a call that times out and a call whose \<^verbatim>\<open>callTool\<close>
  is rejected by the transport end with the same error code.
\<close>

theorem soft_timeout_shares_error_code:
  "error_code_of (fst (bigmodelWebSearchPrime (\<lambda>t. None) (sample_world \<lparr> callTool_settles := None \<rparr>)
       initial_state [] (no_options \<lparr> apiKey := Some ''key'', timeoutMs := Some 100 \<rparr>)))
     = Some TRANSPORT_OR_CONNECT_ERROR
   \<and> error_code_of (fst (bigmodelWebSearchPrime (\<lambda>t. None)
       (sample_world \<lparr> callTool_result := Inl (RawError ''socket closed'') \<rparr>)
       initial_state [] (no_options \<lparr> apiKey := Some ''key'' \<rparr>)))
     = Some TRANSPORT_OR_CONNECT_ERROR"
  by (simp add: bigmodelWebSearchPrime_def credential_def no_options_def sample_world_def
      initial_state_def acquire_def getOrCreateClient_def createClientPromise_def Let_def
      invoke_tool_def callPromise_def trim_def js_whitespace_def timeout_error_def)

text \<open>
  The timer of a \<^verbatim>\<open>timeoutMs\<close> above 2147483647 fires after one millisecond: an answer
  after 50 milliseconds is in time for a \<^verbatim>\<open>timeoutMs\<close> of 2147483647, and too late for
  one of 2147483648.
\<close>

lemma digits_2147483648: "show_nat 2147483648 = ''2147483648''"
  by (simp add: show_nat.simps digit_char_def)

lemma large_timeout_fires_after_one_millisecond:
  "answers_in_time (sample_world \<lparr> callTool_settles := Some 50 \<rparr>)
      (example_options \<lparr> timeoutMs := Some 2147483647 \<rparr>)
   \<and> \<not> answers_in_time (sample_world \<lparr> callTool_settles := Some 50 \<rparr>)
      (example_options \<lparr> timeoutMs := Some 2147483648 \<rparr>)
   \<and> fst (bigmodelWebSearchPrime parse_json (sample_world \<lparr> callTool_settles := Some 50 \<rparr>)
          initial_state example_params (example_options \<lparr> timeoutMs := Some 2147483648 \<rparr>)) =
       Some (Inl (MCPError \<lparr> message = ''MCP call soft-timeout after 2147483648ms'',
                              code = TRANSPORT_OR_CONNECT_ERROR, details = NoDetails \<rparr>))"
  by (simp add: answers_in_time_def timer_delay_def bigmodelWebSearchPrime_def credential_def
      example_options_def no_options_def sample_world_def initial_state_def trim_def
      js_whitespace_def acquire_def getOrCreateClient_def createClientPromise_def Let_def
      invoke_tool_def callPromise_def timeout_error_def digits_2147483648)

subsection \<open>Transport headers\<close>

lemma map_of_obj_update: "map_of (obj_update k v ps) = (map_of ps)(k \<mapsto> v)"
  by (induction ps) (auto simp: fun_eq_iff)

lemma map_of_obj_assign:
  "map_of (obj_assign a b) k = (case map_of (rev b) k of Some v \<Rightarrow> Some v | None \<Rightarrow> map_of a k)"
proof (induction b arbitrary: a)
  case Nil
  then show ?case by simp
next
  case (Cons p b)
  obtain k' v' where p: "p = (k', v')" by (cases p)
  show ?case
    by (simp add: p Cons map_of_obj_update map_add_def split: option.split)
qed

lemma createClientPromise_ok:
  "url_parses W ep \<Longrightarrow>
     snd (createClientPromise W s ep key headers) =
       s \<lparr> trace := trace s @ [NewTransport ep (mergedHeaders key headers), Connect (clients_created s)],
           clients_created := Suc (clients_created s) \<rparr>"
  by (simp add: createClientPromise_def Let_def)

text \<open>
  Claim C3, as amended. Every session establishment of the TypeScript module builds its
  transport with the headers \<^verbatim>\<open>{ Authorization: `Bearer ${apiKey}`, ...headers }\<close>:
  every caller-supplied header is sent with the caller's value, the \<^verbatim>\<open>Authorization\<close>
  header is \<^verbatim>\<open>Bearer\<close>, a space and the credential when the caller supplies no
  \<^verbatim>\<open>Authorization\<close> header, and a caller-supplied \<^verbatim>\<open>Authorization\<close> value replaces it.
  (Of a header given twice the last value counts.) The CommonJS module has no option for
  headers: its transport is built with the bearer header alone.
\<close>

theorem transport_headers_merge:
  "(url_parses W ep \<longrightarrow>
      trace (snd (createClientPromise W s ep key headers)) =
        trace s @ [NewTransport ep (mergedHeaders key headers), Connect (clients_created s)])
   \<and> map_of (mergedHeaders key headers) name =
       (case map_of (rev (case headers of None \<Rightarrow> [] | Some h \<Rightarrow> h)) name of
          Some v \<Rightarrow> Some v
        | None \<Rightarrow> if name = ''Authorization'' then Some (''Bearer '' @ key) else None)
   \<and> (url_parses W ep \<longrightarrow>
      trace (snd (js_clientPromise W s ep key)) =
        trace s @ [NewTransport ep [(''Authorization'', ''Bearer '' @ key)], Connect (clients_created s)])"
  by (auto simp: createClientPromise_ok mergedHeaders_def map_of_obj_assign js_clientPromise_def
      Let_def split: option.split)

text \<open>
  The theorem at work: a caller header \<^verbatim>\<open>X-Trace\<close> is merged in and the bearer header
  stays.
\<close>

theorem transport_headers_merge_witness:
  "url_parses sample_world DEFAULT_ENDPOINT
   \<and> trace (snd (createClientPromise sample_world initial_state DEFAULT_ENDPOINT ''secret''
        (Some [(''X-Trace'', ''1'')])))
     = [NewTransport DEFAULT_ENDPOINT (mergedHeaders ''secret'' (Some [(''X-Trace'', ''1'')])), Connect 0]
   \<and> map_of (mergedHeaders ''secret'' (Some [(''X-Trace'', ''1'')])) ''Authorization''
     = Some ''Bearer secret''
   \<and> map_of (mergedHeaders ''secret'' (Some [(''X-Trace'', ''1'')])) ''X-Trace'' = Some ''1''
   \<and> trace (snd (js_clientPromise sample_world initial_state DEFAULT_ENDPOINT ''secret''))
     = [NewTransport DEFAULT_ENDPOINT [(''Authorization'', ''Bearer secret'')], Connect 0]"
proof -
  have u: "url_parses sample_world DEFAULT_ENDPOINT" by (simp add: sample_world_def)
  show ?thesis
    using u
      transport_headers_merge [of sample_world DEFAULT_ENDPOINT initial_state "''secret''"
        "Some [(''X-Trace'', ''1'')]" "''Authorization''"]
      transport_headers_merge [of sample_world DEFAULT_ENDPOINT initial_state "''secret''"
        "Some [(''X-Trace'', ''1'')]" "''X-Trace''"]
    by (simp add: initial_state_def)
qed

text \<open>
  Where the claim as stated fails: the caller's headers are spread after the bearer
  header, so a caller-supplied \<^verbatim>\<open>Authorization\<close> is what the transport sends.
\<close>

theorem caller_authorization_replaces_bearer:
  "trace (snd (createClientPromise sample_world initial_state DEFAULT_ENDPOINT ''secret''
      (Some [(''Authorization'', ''Basic abc'')])))
   = [NewTransport DEFAULT_ENDPOINT [(''Authorization'', ''Basic abc'')], Connect 0]"
  by (simp add: createClientPromise_def sample_world_def initial_state_def mergedHeaders_def Let_def)

subsection \<open>The connection cache and calls that do not reuse a connection\<close>

lemma createClientPromise_cache:
  "clientCache (snd (createClientPromise W s ep k h)) = clientCache s"
  by (simp add: createClientPromise_def Let_def)

lemma createEphemeralClient_cache:
  "clientCache (snd (createEphemeralClient W s ep k h)) = clientCache s"
  using createClientPromise_cache [of W s ep k h]
  by (auto simp: createEphemeralClient_def split: prod.splits sum.splits)

lemma invoke_tool_cache: "clientCache (snd (invoke_tool P W s1 params options c)) = clientCache s1"
  by (simp add: invoke_tool_def Let_def split: option.split sum.split)

text \<open>
  The TypeScript function does what is asked of a call with \<^verbatim>\<open>reuseConnection: false\<close>:
  the cache is neither read nor written, and the client is a new one, for which a
  transport is built and connected.
\<close>

lemma ephemeral_leaves_cache:
  assumes "reuseConnection options = Some False"
  shows "clientCache (snd (bigmodelWebSearchPrime P W s params options)) = clientCache s"
proof -
  have acq: "clientCache (snd (acquire W s k options)) = clientCache s" for k
    using assms by (simp add: acquire_def createEphemeralClient_cache)
  have "clientCache s1 = clientCache s" if "acquire W s k options = (r, s1)" for k r s1
    using acq [of k] that by simp
  then show ?thesis
    by (auto simp: bigmodelWebSearchPrime_def invoke_tool_cache
        split: option.splits prod.splits sum.splits)
qed

lemma ephemeral_is_fresh:
  assumes "reuseConnection options = Some False" and "acquire W s k options = (Inr c, s1)"
  shows "client_id c = clients_created s
    \<and> trace s1 = trace s @ [NewTransport (ts_endpoint options)
                               (mergedHeaders k (transportHeaders options)),
                             Connect (clients_created s)]"
  using assms
  by (auto simp: acquire_def createEphemeralClient_def createClientPromise_def Let_def
      split: if_splits option.splits)

text \<open>
  Claim C2 against the CommonJS function. With \<^verbatim>\<open>reuseConnection: false\<close> the function
  still goes through the cache, under the key \<^verbatim>\<open>ephemeral::\<close> followed by the current
  millisecond. A first call stores its client promise under that key, so the cache is not
  as it was. A second such call in the same millisecond, here with another credential,
  finds that entry: it builds no transport and invokes the tool through the first call's
  client, whose bearer header holds the first credential.
\<close>

theorem js_ephemeral_session_is_cached:
  "clientCache initial_state ''ephemeral::0'' = None
   \<and> clientCache (snd (js_webSearchPrime (\<lambda>t. None) (\<lambda>v. []) sample_world initial_state (Query ''a'')
        (no_options \<lparr> apiKey := Some ''key-A'', reuseConnection := Some False \<rparr>))) ''ephemeral::0''
      = Some (Inr \<lparr> client_id = 0, client_endpoint = DEFAULT_ENDPOINT,
                     client_headers = [(''Authorization'', ''Bearer key-A'')] \<rparr>)
   \<and> trace (snd (js_webSearchPrime (\<lambda>t. None) (\<lambda>v. []) sample_world
        (snd (js_webSearchPrime (\<lambda>t. None) (\<lambda>v. []) sample_world initial_state (Query ''a'')
           (no_options \<lparr> apiKey := Some ''key-A'', reuseConnection := Some False \<rparr>)))
        (Query ''b'') (no_options \<lparr> apiKey := Some ''key-B'', reuseConnection := Some False \<rparr>)))
      = [NewTransport DEFAULT_ENDPOINT [(''Authorization'', ''Bearer key-A'')], Connect 0,
         CallTool 0 ''webSearchPrime'' (js_toParams (Query ''a'')),
         CallTool 0 ''webSearchPrime'' (js_toParams (Query ''b''))]"
  by (simp add: js_webSearchPrime_def js_credential_def no_options_def sample_world_def
      initial_state_def js_acquire_def js_clientPromise_def js_cacheKey_def js_endpoint_def Let_def
      js_invoke_tool_def show_nat.simps digit_char_def)

subsection \<open>Defaults of the parameters\<close>

lemma invocations_append: "invocations (xs @ ys) = invocations xs @ invocations ys"
  by (simp add: invocations_def List.map_filter_def)

lemma invocations_call: "invocations [CallTool c name args] = [(name, args)]"
  by (simp add: invocations_def List.map_filter_def)

lemma invocations_connect: "invocations [NewTransport ep h, Connect c] = []"
  by (simp add: invocations_def List.map_filter_def)

lemma js_invoke_tool_trace:
  "trace (snd (js_invoke_tool P S W s1 params c)) =
     trace s1 @ [CallTool (client_id c) ''webSearchPrime'' params]"
  by (simp add: js_invoke_tool_def Let_def split: option.split sum.split)

lemma js_clientPromise_invocations:
  "invocations (trace (snd (js_clientPromise W s ep k))) = invocations (trace s)"
  by (simp add: js_clientPromise_def Let_def invocations_append invocations_connect)

lemma js_acquire_invocations:
  "invocations (trace (snd (js_acquire W s k options))) = invocations (trace s)"
  using js_clientPromise_invocations [of W s "js_endpoint options" k]
  by (auto simp: js_acquire_def split: option.split prod.split)

lemma js_webSearchPrime_invocations:
  "invocations (trace (snd (js_webSearchPrime P S W s q options))) = invocations (trace s)
   \<or> invocations (trace (snd (js_webSearchPrime P S W s q options)))
       = invocations (trace s) @ [(''webSearchPrime'', js_toParams q)]"
proof (cases "js_credential W options")
  case None
  then show ?thesis by (simp add: js_webSearchPrime_def)
next
  case (Some k)
  show ?thesis
  proof (cases "k = []")
    case True
    then show ?thesis by (simp add: js_webSearchPrime_def Some)
  next
    case False
    obtain r s1 where a: "js_acquire W s k options = (r, s1)" by (cases "js_acquire W s k options")
    then have i: "invocations (trace s1) = invocations (trace s)"
      using js_acquire_invocations [of W s k options] by simp
    show ?thesis
    proof (cases r)
      case (Inl e)
      then show ?thesis by (simp add: js_webSearchPrime_def Some False a i)
    next
      case (Inr c)
      then show ?thesis
        by (simp add: js_webSearchPrime_def Some False a js_invoke_tool_trace
            invocations_append invocations_call i)
    qed
  qed
qed

text \<open>
  Claim C8, as amended. The entry point that takes a bare query text or a parameter object
  is the CommonJS function. For a query text the arguments are the text with
  \<^verbatim>\<open>count: 10\<close>, \<^verbatim>\<open>content_size: 'medium'\<close> and \<^verbatim>\<open>location: 'cn'\<close>. For a parameter
  object every own property of the input keeps the input's value, one whose value is
  \<^verbatim>\<open>undefined\<close> included, and of \<^verbatim>\<open>count\<close>, \<^verbatim>\<open>content_size\<close>, \<^verbatim>\<open>location\<close> those
  that are not own properties of the input get these defaults. No default is applied to
  \<^verbatim>\<open>search_recency_filter\<close> (nor to any other property): it is there only when the
  caller supplies it. The defaults are in place before the tool is invoked: a call makes at
  most one invocation, of \<^verbatim>\<open>webSearchPrime\<close> with exactly these arguments.
\<close>

theorem toParams_defaults:
  "js_toParams (Query text) =
     [(''search_query'', Some (JStr text)), (''count'', Some (JNum 10)),
      (''content_size'', Some (JStr ''medium'')), (''location'', Some (JStr ''cn''))]
   \<and> map_of (js_toParams (Params input)) k =
       (case map_of (rev input) k of
          Some v \<Rightarrow> Some v
        | None \<Rightarrow> map_of [(''count'', Some (JNum 10)), (''content_size'', Some (JStr ''medium'')),
                          (''location'', Some (JStr ''cn''))] k)
   \<and> invocations (trace (snd (js_webSearchPrime P S W s q options)))
       \<in> {invocations (trace s), invocations (trace s) @ [(''webSearchPrime'', js_toParams q)]}"
  using js_webSearchPrime_invocations [of P S W s q options]
  by (simp add: map_of_obj_assign)

text \<open>
  Where the claim as stated fails: neither form of the input gets a
  \<^verbatim>\<open>search_recency_filter\<close>.
\<close>

theorem no_default_for_recency_filter:
  "map_of (js_toParams (Query ''q'')) ''search_recency_filter'' = None
   \<and> map_of (js_toParams (Params [(''search_query'', Some (JStr ''q''))])) ''search_recency_filter''
       = None"
  by simp

text \<open>
  An own property set to \<^verbatim>\<open>undefined\<close> is a property the caller supplies: with
  \<^verbatim>\<open>{ search_query: 'q', count: undefined }\<close> the arguments have the property
  \<^verbatim>\<open>count\<close> with the value \<^verbatim>\<open>undefined\<close>, not the default 10. An input without the
  property gets the default.
\<close>

lemma explicit_undefined_replaces_default:
  "js_toParams (Params [(''search_query'', Some (JStr ''q'')), (''count'', None)]) =
     [(''count'', None), (''content_size'', Some (JStr ''medium'')), (''location'', Some (JStr ''cn'')),
      (''search_query'', Some (JStr ''q''))]
   \<and> param_get ''count''
        (js_toParams (Params [(''search_query'', Some (JStr ''q'')), (''count'', None)])) = None
   \<and> param_get ''count'' (js_toParams (Params [(''search_query'', Some (JStr ''q''))]))
       = Some (JNum 10)"
  by (simp add: param_get_def)

section \<open>Titles\<close>

lemma present_case: "\<not> nullish a \<Longrightarrow> (case a of None \<Rightarrow> x | Some v \<Rightarrow> Some v) = a"
  by (cases a) auto

lemma item_title_spec:
  "item_title r u = spec_title not_nullish [''title'', ''name'', ''page_title''] r u"
  by (simp add: item_title_def spec_title_def coalesce_def first_present_Cons first_present_Nil
      not_nullish_def present_case)

lemma truthy_case: "truthy a \<Longrightarrow> (case a of None \<Rightarrow> x | Some v \<Rightarrow> Some v) = a"
  by (cases a) auto

lemma js_item_title_spec:
  "js_item_title r u = spec_title truthy [''title'', ''name''] r u"
  by (simp add: js_item_title_def spec_title_def js_or_def first_present_Cons first_present_Nil
      truthy_case)

lemma spec_normalize_items:
  "i \<in> set (spec_normalize resolve build rs) \<Longrightarrow> \<exists>r u. i = build r u"
  by (auto simp: spec_normalize_def)

text \<open>
  Claim C6, as amended. For every record kept by the TypeScript normalizer the title is
  the first of \<^verbatim>\<open>title\<close>, \<^verbatim>\<open>name\<close>, \<^verbatim>\<open>page_title\<close> that is present (neither
  \<^verbatim>\<open>undefined\<close> nor \<^verbatim>\<open>null\<close>), and the record's resolved URL when none is. For every
  record kept by the CommonJS normalizer the title is the first of \<^verbatim>\<open>title\<close>, \<^verbatim>\<open>name\<close>
  that is truthy, and the resolved URL when none is; \<^verbatim>\<open>page_title\<close> is not consulted.
\<close>

theorem title_resolution:
  "(\<forall>i \<in> set (normalizeItems rs).
      title i = spec_title not_nullish [''title'', ''name'', ''page_title''] (raw i) (url i))
   \<and> (\<forall>i \<in> set (js_normalizeItems rs).
      title i = spec_title truthy [''title'', ''name''] (raw i) (url i))"
proof (intro conjI ballI)
  fix i assume "i \<in> set (normalizeItems rs)"
  then have "i \<in> set (spec_normalize (resolvable_url not_nullish) make_item rs)"
    by (simp add: normalizeItems_spec)
  then obtain r u where "i = make_item r u"
    using spec_normalize_items by blast
  then show "title i = spec_title not_nullish [''title'', ''name'', ''page_title''] (raw i) (url i)"
    by (simp add: make_item_def item_title_spec)
next
  fix i assume "i \<in> set (js_normalizeItems rs)"
  then have "i \<in> set (spec_normalize (resolvable_url truthy) js_make_item rs)"
    by (simp add: js_normalizeItems_spec)
  then obtain r u where "i = js_make_item r u"
    using spec_normalize_items by blast
  then show "title i = spec_title truthy [''title'', ''name''] (raw i) (url i)"
    by (simp add: js_make_item_def js_item_title_spec)
qed

text \<open>
  The theorem at work: a record with a \<^verbatim>\<open>page_title\<close> only in the TypeScript
  normalizer, a record with a \<^verbatim>\<open>name\<close> only in the CommonJS normalizer.
\<close>

theorem title_resolution_witness:
  "title (make_item (JObj [(''link'', JStr ''http://x''), (''page_title'', JStr ''P'')]) ''http://x'')
     = Some (JStr ''P'')
   \<and> title (js_make_item (JObj [(''link'', JStr ''http://x''), (''name'', JStr ''N'')]) ''http://x'')
     = Some (JStr ''N'')"
proof -
  have ts: "normalizeItems [JObj [(''link'', JStr ''http://x''), (''page_title'', JStr ''P'')]] =
      [make_item (JObj [(''link'', JStr ''http://x''), (''page_title'', JStr ''P'')]) ''http://x'']"
    by (simp add: normalizeItems_def normalize_record_def item_url_def coalesce_def checked_url_def)
  have js: "js_normalizeItems [JObj [(''link'', JStr ''http://x''), (''name'', JStr ''N'')]] =
      [js_make_item (JObj [(''link'', JStr ''http://x''), (''name'', JStr ''N'')]) ''http://x'']"
    by (simp add: js_normalizeItems_def js_normalize_record_def js_item_link_def js_or_def
        checked_url_def)
  show ?thesis
    using title_resolution [of "[JObj [(''link'', JStr ''http://x''), (''page_title'', JStr ''P'')]]"]
      title_resolution [of "[JObj [(''link'', JStr ''http://x''), (''name'', JStr ''N'')]]"]
    by (simp add: ts js spec_title_def first_present_def not_nullish_def make_item_def
        js_make_item_def)
qed

text \<open>
  Where the claim as stated fails: the CommonJS normalizer gives a record that has a
  \<^verbatim>\<open>page_title\<close> and neither \<^verbatim>\<open>title\<close> nor \<^verbatim>\<open>name\<close> its URL as title, where
  first-present-wins over the three fields gives the \<^verbatim>\<open>page_title\<close>.
\<close>

theorem js_title_ignores_page_title:
  "map title (js_normalizeItems [JObj [(''link'', JStr ''http://x''), (''page_title'', JStr ''P'')]])
     = [Some (JStr ''http://x'')]
   \<and> spec_title truthy [''title'', ''name'', ''page_title'']
        (JObj [(''link'', JStr ''http://x''), (''page_title'', JStr ''P'')]) ''http://x''
     = Some (JStr ''P'')"
  by (simp add: js_normalizeItems_def js_normalize_record_def js_item_link_def js_or_def
      checked_url_def js_make_item_def js_item_title_def spec_title_def first_present_def)

section \<open>Double encoding\<close>

lemma block_records_text: "block_records P (text_block t) = parsed_records (parse_rounds P 2 (JStr t))"
  by (simp add: block_records_def text_block_def)

lemma parse_rounds_single:
  "P t = Some (JArr a) \<Longrightarrow> parse_rounds P 2 (JStr t) = JArr a"
  by (simp add: numeral_2_eq_2)

lemma parse_rounds_double:
  "P d = Some (JStr t) \<Longrightarrow> P t = Some (JArr a) \<Longrightarrow> parse_rounds P 2 (JStr d) = JArr a"
  by (simp add: numeral_2_eq_2)

text \<open>
  Claim C7. Let \<open>a\<close> be a JSON array that \<^verbatim>\<open>JSON.parse\<close> gives back from its
  \<^verbatim>\<open>JSON.stringify\<close> text, and let the text of that text parse back to it as well. Then a
  block whose text is \<open>a\<close> stringified twice unwraps to the same records as a block whose
  text is \<open>a\<close> stringified once, namely to the elements of \<open>a\<close>, alone or among other
  blocks, in the TypeScript and in the CommonJS unwrapper.
\<close>

theorem double_encoding_unwraps_alike:
  assumes once: "P (S (JArr a)) = Some (JArr a)"
    and twice: "P (S (JStr (S (JArr a)))) = Some (JStr (S (JArr a)))"
  shows "parseItemsFromBlocks P [text_block (S (JStr (S (JArr a))))] = a
    \<and> parseItemsFromBlocks P [text_block (S (JArr a))] = a
    \<and> parseItemsFromBlocks P (pre @ text_block (S (JStr (S (JArr a)))) # post)
        = parseItemsFromBlocks P (pre @ text_block (S (JArr a)) # post)
    \<and> js_extractArrayFromBlocks P [text_block (S (JStr (S (JArr a))))] = a
    \<and> js_extractArrayFromBlocks P [text_block (S (JArr a))] = a
    \<and> js_extractArrayFromBlocks P (pre @ text_block (S (JStr (S (JArr a)))) # post)
        = js_extractArrayFromBlocks P (pre @ text_block (S (JArr a)) # post)"
proof -
  have single: "block_records P (text_block (S (JArr a))) = a"
    using parse_rounds_single [of P "S (JArr a)" a] once
    by (simp add: block_records_text parsed_records_def)
  have double: "block_records P (text_block (S (JStr (S (JArr a))))) = a"
    using parse_rounds_double [of P "S (JStr (S (JArr a)))" "S (JArr a)" a] once twice
    by (simp add: block_records_text parsed_records_def)
  show ?thesis
    by (simp add: parseItemsFromBlocks_eq js_extractArrayFromBlocks_eq single double)
qed

text \<open>
  The theorem at work, with the codec for \<^verbatim>\<open>JSON.parse\<close> and \<^verbatim>\<open>JSON.stringify\<close>, on
  the array of the specification's example.
\<close>

theorem double_encoding_unwraps_alike_witness:
  "parse_json (stringify (JArr [example_record])) = Some (JArr [example_record])
   \<and> parse_json (stringify (JStr (stringify (JArr [example_record]))))
       = Some (JStr (stringify (JArr [example_record])))
   \<and> parseItemsFromBlocks parse_json [text_block (stringify (JStr (stringify (JArr [example_record]))))]
       = [example_record]
   \<and> parseItemsFromBlocks parse_json [text_block (stringify (JArr [example_record]))]
       = [example_record]
   \<and> js_extractArrayFromBlocks parse_json
        [text_block (stringify (JStr (stringify (JArr [example_record]))))]
       = [example_record]"
proof -
  have once: "parse_json (stringify (JArr [example_record])) = Some (JArr [example_record])"
    using parse_example_text by (simp only: example_text_def)
  have twice: "parse_json (stringify (JStr (stringify (JArr [example_record]))))
       = Some (JStr (stringify (JArr [example_record])))"
    using parse_example_double_text by (simp only: example_text_def)
  show ?thesis
    using once twice double_encoding_unwraps_alike [OF once twice, of "[]" "[]"] by blast
qed

end
